theory Spec2Isabelle
  imports Complex_Main "HOL-Library.Sublist"
begin

section \<open>JavaScript values as the executors see them\<close>

text \<open>
  The tool executors of the AO MCP server receive the argument object of a tool call
  unchanged: \<^verbatim>\<open>handleToolCall\<close> casts it with \<^verbatim>\<open>args as unknown as QueryProcessArgs\<close>
  and so on, and a cast is erased at run time. Every property an executor reads may
  therefore be absent, whatever the interface declares. A property of type string is
  modelled as \<open>string option\<close>, \<open>None\<close> standing for \<^verbatim>\<open>undefined\<close>.

  A property that is present has the type that the tool's input schema declares.

  A \<open>string\<close> is a list of characters; one character stands for one code unit of the
  JavaScript string, which is what \<^verbatim>\<open>.length\<close> and \<^verbatim>\<open>.substring\<close> count.
\<close>

definition truthy :: "string option \<Rightarrow> bool" where
  \<comment> \<open>the test \<^verbatim>\<open>if (v)\<close> on a string or undefined: the empty string is falsy\<close>
  "truthy v = (case v of None \<Rightarrow> False | Some s \<Rightarrow> s \<noteq> [])"

definition js_or :: "string option \<Rightarrow> string \<Rightarrow> string" where
  \<comment> \<open>\<^verbatim>\<open>v || d\<close> with a string default\<close>
  "js_or v d = (case v of None \<Rightarrow> d | Some s \<Rightarrow> if s = [] then d else s)"

definition js_show :: "string option \<Rightarrow> string" where
  \<comment> \<open>\<^verbatim>\<open>${v}\<close> in a template literal, and the ToString that \<^verbatim>\<open>JSON.parse\<close> applies\<close>
  "js_show v = (case v of None \<Rightarrow> ''undefined'' | Some s \<Rightarrow> s)"

definition dquote :: string where
  "dquote = [CHR 0x22]"

definition digit_char :: "nat \<Rightarrow> char" where
  "digit_char d = ''0123456789'' ! d"

fun show_nat :: "nat \<Rightarrow> string" where
  \<comment> \<open>\<^verbatim>\<open>${n}\<close> for a non-negative integer\<close>
  "show_nat n = (if n < 10 then [digit_char n] else show_nat (n div 10) @ [digit_char (n mod 10)])"

declare show_nat.simps [simp del]

fun join :: "string \<Rightarrow> string list \<Rightarrow> string" where
  \<comment> \<open>\<^verbatim>\<open>xs.join(sep)\<close>\<close>
  "join sep [] = []"
| "join sep [x] = x"
| "join sep (x # y # ys) = x @ sep @ join sep (y # ys)"

definition is_whitespace :: "char \<Rightarrow> bool" where
  \<comment> \<open>the white space and line terminator code units that \<^verbatim>\<open>trim\<close> removes, as far
      as they lie in the range of \<open>char\<close>: TAB, LF, VT, FF, CR, SP, NBSP\<close>
  "is_whitespace c = (c \<in> set [CHR 0x09, CHR 0x0A, CHR 0x0B, CHR 0x0C, CHR 0x0D, CHR 0x20, CHR 0xA0])"

definition trim :: "string \<Rightarrow> string" where
  "trim s = rev (dropWhile is_whitespace (rev (dropWhile is_whitespace s)))"

datatype js_error = ErrorObj string | Thrown

definition error_message :: "js_error \<Rightarrow> string" where
  \<comment> \<open>\<^verbatim>\<open>error instanceof Error ? error.message : "Unknown error"\<close>\<close>
  "error_message e = (case e of ErrorObj m \<Rightarrow> m | Thrown \<Rightarrow> ''Unknown error'')"

section \<open>Data model\<close>

text \<open>
  A tag. Its value is optional because send-message copies \<^verbatim>\<open>args.action\<close> into the
  Action tag without testing it.
\<close>

record tag =
  tag_name :: string
  tag_value :: "string option"

text \<open>
  The argument object of a tool call, with one field for each property that some
  executor reads (\<^verbatim>\<open>name\<close> is the process name of the spawn tool, \<^verbatim>\<open>from\<close> the
  pagination cursor of the list tool). The limit is a JSON number.
\<close>

record tool_args =
  process_id :: "string option"
  action :: "string option"
  data :: "string option"
  tags :: "tag list option"
  wallet_json :: "string option"
  name :: "string option"
  module :: "string option"
  scheduler :: "string option"
  code :: "string option"
  limit :: "rat option"
  from_cursor :: "string option"
  sort :: "string option"

text \<open>The result envelope \<^verbatim>\<open>ToolResult\<close> of config.ts.\<close>

record content_item =
  item_type :: string
  item_text :: string

record ToolResult =
  content :: "content_item list"
  isError :: "bool option"

definition text_result :: "string \<Rightarrow> ToolResult" where
  \<comment> \<open>the literal \<^verbatim>\<open>{ content: [{ type: "text", text: t }] }\<close>\<close>
  "text_result t = \<lparr>content = [\<lparr>item_type = ''text'', item_text = t\<rparr>], isError = None\<rparr>"

definition error_result :: "string \<Rightarrow> ToolResult" where
  \<comment> \<open>the literal \<^verbatim>\<open>{ content: [{ type: "text", text: t }], isError: true }\<close>\<close>
  "error_result t = \<lparr>content = [\<lparr>item_type = ''text'', item_text = t\<rparr>], isError = Some True\<rparr>"

definition result_text :: "ToolResult \<Rightarrow> string" where
  "result_text r = concat (map item_text (content r))"

text \<open>What the network client answers.\<close>

record ao_message =
  Tags :: "tag list option"
  Data :: "string option"

record ao_output =
  out_data :: "string option"

record response =
  Messages :: "ao_message list option"
  Output :: "ao_output option"
  Error :: "string option"

record edge =
  cursor :: string
  node :: response

record results_response =
  edges :: "edge list option"

text \<open>What the executors send to the network client.\<close>

record dryrun_req =
  dr_process :: string
  dr_tags :: "tag list"
  dr_data :: string

record 's message_req =
  msg_process :: string
  msg_signer :: 's
  msg_tags :: "tag list"
  msg_data :: string

record result_req =
  res_process :: string
  res_message :: string

record 's spawn_req =
  sp_module :: string
  sp_scheduler :: string
  sp_signer :: 's
  sp_tags :: "tag list"

record results_req =
  rs_process :: string
  rs_limit :: rat
  rs_from :: "string option"
  rs_sort :: string

text \<open>
  The calls an executor makes on the aoconnect library are recorded in order. The parsed
  wallet (type \<open>'j\<close>) and the signer derived from it (type \<open>'s\<close>) are opaque to the
  executors.
\<close>

datatype ('j, 's) net_call =
    CreateDataItemSigner 'j
  | Dryrun dryrun_req
  | Message "'s message_req"
  | Result result_req
  | Spawn "'s spawn_req"
  | Results results_req

text \<open>
  The platform and the library are parameters: \<^verbatim>\<open>JSON.parse\<close> (\<open>None\<close> when it
  throws), \<^verbatim>\<open>JSON.stringify(v, null, 2)\<close>, and the operations of aoconnect, each of
  which answers or throws (\<open>Inl\<close>).
\<close>

record ('j, 's) env =
  JSON_parse :: "string \<Rightarrow> 'j option"
  JSON_stringify :: "'j \<Rightarrow> string"
  createDataItemSigner :: "'j \<Rightarrow> js_error + 's"
  dryrun :: "dryrun_req \<Rightarrow> js_error + response"
  message :: "'s message_req \<Rightarrow> js_error + string"
  result :: "result_req \<Rightarrow> js_error + response option"
  spawn :: "'s spawn_req \<Rightarrow> js_error + string"
  results :: "results_req \<Rightarrow> js_error + results_response option"

section \<open>Configuration constants (config.ts)\<close>

definition AOS_MODULE :: string where
  "AOS_MODULE = ''Do_Uc2Sju_ffp6Ev0AnLVdPtot15rvMjP-a9VVaA5fM''"

definition SCHEDULER :: string where
  "SCHEDULER = ''_GQ33BkPtZrqxA84vM8Zk-N2aO0toNNu_C-l-rawrBA''"

section \<open>Shared pieces of the executors\<close>

definition invalid_process_id :: "string option \<Rightarrow> bool" where
  \<comment> \<open>\<^verbatim>\<open>!args.process_id || args.process_id.length !== 43\<close>\<close>
  "invalid_process_id p = (case p of None \<Rightarrow> True | Some s \<Rightarrow> s = [] \<or> length s \<noteq> 43)"

definition invalid_process_id_text :: "string option \<Rightarrow> string" where
  "invalid_process_id_text p =
     ''Error: Invalid process ID '' @ dquote @ js_show p @ dquote @
     ''. Must be a 43-character Arweave transaction ID.''"

definition actionTag :: "ao_message \<Rightarrow> tag option" where
  \<comment> \<open>\<^verbatim>\<open>msg.Tags?.find(t => t.name === "Action")\<close>\<close>
  "actionTag m = (case Tags m of None \<Rightarrow> None | Some ts \<Rightarrow> find (\<lambda>t. tag_name t = ''Action'') ts)"

definition opt_value :: "tag option \<Rightarrow> string option" where
  \<comment> \<open>\<^verbatim>\<open>actionTag?.value\<close>\<close>
  "opt_value t = (case t of None \<Rightarrow> None | Some x \<Rightarrow> tag_value x)"

definition first_message :: "ao_message list option \<Rightarrow> ao_message option" where
  \<comment> \<open>\<^verbatim>\<open>Messages && Messages.length > 0\<close>, then \<^verbatim>\<open>Messages[0]\<close>\<close>
  "first_message ms = (case ms of None \<Rightarrow> None | Some [] \<Rightarrow> None | Some (m # _) \<Rightarrow> Some m)"

definition output_data :: "ao_output option \<Rightarrow> string option" where
  \<comment> \<open>\<^verbatim>\<open>Output?.data\<close>\<close>
  "output_data out = (case out of None \<Rightarrow> None | Some x \<Rightarrow> out_data x)"

definition caller_tags :: "tool_args \<Rightarrow> tag list" where
  \<comment> \<open>what \<^verbatim>\<open>if (args.tags) { tags.push(...args.tags); }\<close> appends\<close>
  "caller_tags args = (case tags args of None \<Rightarrow> [] | Some ts \<Rightarrow> ts)"

section \<open>ao_query_process (tools/query-process.ts)\<close>

definition executeQueryProcess ::
  "('j, 's) env \<Rightarrow> tool_args \<Rightarrow> ('j, 's) net_call list \<times> ToolResult" where
  "executeQueryProcess env args =
    (case process_id args of
       None \<Rightarrow> ([], error_result (invalid_process_id_text None))
     | Some pid \<Rightarrow>
        if invalid_process_id (Some pid) then
          ([], error_result (invalid_process_id_text (Some pid)))
        else
          (let tags = \<lparr>tag_name = ''Action'', tag_value = Some (js_or (action args) ''Info'')\<rparr>
                        # caller_tags args;
               req = \<lparr>dr_process = pid, dr_tags = tags, dr_data = js_or (data args) ''{}''\<rparr>
           in case dryrun env req of
               Inl e \<Rightarrow> ([Dryrun req], error_result (''Error querying process: '' @ error_message e))
             | Inr response \<Rightarrow>
                ([Dryrun req],
                 (case first_message (Messages response) of
                    Some msg \<Rightarrow>
                      (let responseData = Data msg in
                       if opt_value (actionTag msg) = Some ''Error'' then
                         error_result (''Process returned error: '' @ js_show responseData)
                       else
                         (case JSON_parse env (js_show responseData) of
                            Some parsed \<Rightarrow>
                              text_result (''Process response (Action: ''
                                @ js_or (opt_value (actionTag msg)) ''unknown'' @ ''):\<newline>''
                                @ JSON_stringify env parsed)
                          | None \<Rightarrow>
                              text_result (''Process response (Action: ''
                                @ js_or (opt_value (actionTag msg)) ''unknown'' @ ''):\<newline>''
                                @ js_show responseData)))
                  | None \<Rightarrow>
                      if truthy (output_data (Output response)) then
                        text_result (''Process output:\<newline>'' @ js_show (output_data (Output response)))
                      else if truthy (Error response) then
                        error_result (''Process error: '' @ js_show (Error response))
                      else
                        text_result ''No response from process. The process may not have a handler for this action.''))))"

section \<open>ao_send_message (tools/send-message.ts)\<close>

definition opt_Messages :: "response option \<Rightarrow> ao_message list option" where
  \<comment> \<open>\<^verbatim>\<open>res?.Messages\<close>\<close>
  "opt_Messages res = (case res of None \<Rightarrow> None | Some r \<Rightarrow> Messages r)"

definition opt_Output :: "response option \<Rightarrow> ao_output option" where
  \<comment> \<open>\<^verbatim>\<open>res?.Output\<close>\<close>
  "opt_Output res = (case res of None \<Rightarrow> None | Some r \<Rightarrow> Output r)"

definition opt_Error :: "response option \<Rightarrow> string option" where
  \<comment> \<open>\<^verbatim>\<open>res?.Error\<close>\<close>
  "opt_Error res = (case res of None \<Rightarrow> None | Some r \<Rightarrow> Error r)"

definition executeSendMessage ::
  "('j, 's) env \<Rightarrow> tool_args \<Rightarrow> ('j, 's) net_call list \<times> ToolResult" where
  "executeSendMessage env args =
    (case process_id args of
       None \<Rightarrow> ([], error_result (invalid_process_id_text None))
     | Some pid \<Rightarrow>
        if invalid_process_id (Some pid) then
          ([], error_result (invalid_process_id_text (Some pid)))
        else if \<not> truthy (wallet_json args) then
          ([], error_result ''Error: wallet_json is required for sending messages. Provide the JSON content of your Arweave wallet.'')
        else
          (case JSON_parse env (js_show (wallet_json args)) of
             None \<Rightarrow> ([], error_result ''Error: Invalid wallet JSON. Ensure it is a valid Arweave JWK.'')
           | Some jwk \<Rightarrow>
              (case createDataItemSigner env jwk of
                 Inl e \<Rightarrow>
                   ([CreateDataItemSigner jwk],
                    error_result (''Error sending message: '' @ error_message e))
               | Inr signer \<Rightarrow>
                  (let tags = \<lparr>tag_name = ''Action'', tag_value = action args\<rparr> # caller_tags args;
                       req = \<lparr>msg_process = pid, msg_signer = signer, msg_tags = tags,
                              msg_data = js_or (data args) ''{}''\<rparr>
                   in (case message env req of
                         Inl e \<Rightarrow>
                           ([CreateDataItemSigner jwk, Message req],
                            error_result (''Error sending message: '' @ error_message e))
                       | Inr msgId \<Rightarrow>
                          (let rreq = \<lparr>res_process = pid, res_message = msgId\<rparr>;
                               calls = [CreateDataItemSigner jwk, Message req, Result rreq]
                           in (case result env rreq of
                                 Inl e \<Rightarrow>
                                   (calls, error_result (''Error sending message: '' @ error_message e))
                               | Inr res \<Rightarrow>
                                   (calls,
                                    (case first_message (opt_Messages res) of
                                       Some msg \<Rightarrow>
                                         (let responseData = Data msg in
                                          if opt_value (actionTag msg) = Some ''Error'' then
                                            error_result (''Message sent (ID: '' @ msgId
                                              @ '') but process returned error:\<newline>''
                                              @ js_show responseData)
                                          else
                                            (case JSON_parse env (js_show responseData) of
                                               Some parsed \<Rightarrow>
                                                 text_result (''Message sent successfully!\<newline>Message ID: ''
                                                   @ msgId @ ''\<newline>Action: ''
                                                   @ js_or (opt_value (actionTag msg)) ''unknown''
                                                   @ ''\<newline>Response:\<newline>''
                                                   @ JSON_stringify env parsed)
                                             | None \<Rightarrow>
                                                 text_result (''Message sent successfully!\<newline>Message ID: ''
                                                   @ msgId @ ''\<newline>Action: ''
                                                   @ js_or (opt_value (actionTag msg)) ''unknown''
                                                   @ ''\<newline>Response:\<newline>''
                                                   @ js_show responseData)))
                                     | None \<Rightarrow>
                                         if truthy (opt_Error res) then
                                           error_result (''Message sent (ID: '' @ msgId
                                             @ '') but process error: '' @ js_show (opt_Error res))
                                         else if truthy (output_data (opt_Output res)) then
                                           text_result (''Message sent successfully!\<newline>Message ID: ''
                                             @ msgId @ ''\<newline>Output:\<newline>''
                                             @ js_show (output_data (opt_Output res)))
                                         else
                                           text_result (''Message sent successfully!\<newline>Message ID: ''
                                             @ msgId @ ''\<newline>No response data returned.''))))))))))"

section \<open>ao_spawn_process (tools/spawn-process.ts)\<close>

definition executeSpawnProcess ::
  "('j, 's) env \<Rightarrow> tool_args \<Rightarrow> ('j, 's) net_call list \<times> ToolResult" where
  "executeSpawnProcess env args =
    (if \<not> truthy (wallet_json args) then
       ([], error_result ''Error: wallet_json is required for spawning processes. Provide the JSON content of your Arweave wallet.'')
     else
       (case JSON_parse env (js_show (wallet_json args)) of
          None \<Rightarrow> ([], error_result ''Error: Invalid wallet JSON. Ensure it is a valid Arweave JWK.'')
        | Some jwk \<Rightarrow>
           (case createDataItemSigner env jwk of
              Inl e \<Rightarrow>
                ([CreateDataItemSigner jwk],
                 error_result (''Error spawning process: '' @ error_message e))
            | Inr signer \<Rightarrow>
               (let tags = (if truthy (name args)
                            then [\<lparr>tag_name = ''Name'', tag_value = name args\<rparr>] else [])
                           @ caller_tags args;
                    req = \<lparr>sp_module = js_or (module args) AOS_MODULE,
                           sp_scheduler = js_or (scheduler args) SCHEDULER,
                           sp_signer = signer, sp_tags = tags\<rparr>
                in (case spawn env req of
                      Inl e \<Rightarrow>
                        ([CreateDataItemSigner jwk, Spawn req],
                         error_result (''Error spawning process: '' @ error_message e))
                    | Inr pid \<Rightarrow>
                        ([CreateDataItemSigner jwk, Spawn req],
                         text_result (''Process spawned successfully!\<newline>\<newline>Process ID: '' @ pid
                           @ ''\<newline>Module: '' @ js_or (module args) AOS_MODULE
                           @ ''\<newline>Scheduler: '' @ js_or (scheduler args) SCHEDULER
                           @ (if truthy (name args) then ''\<newline>Name: '' @ js_show (name args) else [])
                           @ ''\<newline>\<newline>You can now send messages to this process using the ao_send_message tool.'')))))))"

section \<open>ao_eval_lua (tools/eval-lua.ts)\<close>

definition executeEvalLua ::
  "('j, 's) env \<Rightarrow> tool_args \<Rightarrow> ('j, 's) net_call list \<times> ToolResult" where
  "executeEvalLua env args =
    (case process_id args of
       None \<Rightarrow> ([], error_result (invalid_process_id_text None))
     | Some pid \<Rightarrow>
        if invalid_process_id (Some pid) then
          ([], error_result (invalid_process_id_text (Some pid)))
        else if \<not> truthy (code args) \<or> length (trim (js_show (code args))) = 0 then
          ([], error_result ''Error: code is required. Provide Lua code to execute.'')
        else if \<not> truthy (wallet_json args) then
          ([], error_result ''Error: wallet_json is required for executing Lua code. Provide the JSON content of your Arweave wallet.'')
        else
          (case JSON_parse env (js_show (wallet_json args)) of
             None \<Rightarrow> ([], error_result ''Error: Invalid wallet JSON. Ensure it is a valid Arweave JWK.'')
           | Some jwk \<Rightarrow>
              (case createDataItemSigner env jwk of
                 Inl e \<Rightarrow>
                   ([CreateDataItemSigner jwk],
                    error_result (''Error executing Lua code: '' @ error_message e))
               | Inr signer \<Rightarrow>
                  (let req = \<lparr>msg_process = pid, msg_signer = signer,
                              msg_tags = [\<lparr>tag_name = ''Action'', tag_value = Some ''Eval''\<rparr>],
                              msg_data = js_show (code args)\<rparr>
                   in (case message env req of
                         Inl e \<Rightarrow>
                           ([CreateDataItemSigner jwk, Message req],
                            error_result (''Error executing Lua code: '' @ error_message e))
                       | Inr msgId \<Rightarrow>
                          (let rreq = \<lparr>res_process = pid, res_message = msgId\<rparr>;
                               calls = [CreateDataItemSigner jwk, Message req, Result rreq]
                           in (case result env rreq of
                                 Inl e \<Rightarrow>
                                   (calls, error_result (''Error executing Lua code: '' @ error_message e))
                               | Inr res \<Rightarrow>
                                   (calls,
                                    (if truthy (opt_Error res) then
                                       error_result (''Lua execution error:\<newline>'' @ js_show (opt_Error res))
                                     else
                                       (let output = js_or (output_data (opt_Output res)) [] in
                                        (case first_message (opt_Messages res) of
                                           Some msg \<Rightarrow>
                                             if opt_value (actionTag msg) = Some ''Error'' then
                                               error_result (''Lua execution error:\<newline>'' @ js_show (Data msg))
                                             else
                                               text_result (''Lua code executed successfully!\<newline>Message ID: ''
                                                 @ msgId @ ''\<newline>\<newline>Output:\<newline>''
                                                 @ js_or (Some output) ''(no output)''
                                                 @ ''\<newline>\<newline>Response (Action: ''
                                                 @ js_or (opt_value (actionTag msg)) ''unknown''
                                                 @ ''):\<newline>'' @ js_or (Data msg) ''(no data)'')
                                         | None \<Rightarrow>
                                             text_result (''Lua code executed successfully!\<newline>Message ID: ''
                                               @ msgId @ ''\<newline>\<newline>Output:\<newline>''
                                               @ js_or (Some output) ''(no output)''))))))))))))"

section \<open>ao_list_results (tools/list-results.ts)\<close>

definition opt_edges :: "results_response option \<Rightarrow> edge list option" where
  \<comment> \<open>\<^verbatim>\<open>res?.edges\<close>\<close>
  "opt_edges res = (case res of None \<Rightarrow> None | Some r \<Rightarrow> edges r)"

definition formatResult :: "edge \<Rightarrow> nat \<Rightarrow> string" where
  \<comment> \<open>the callback of \<^verbatim>\<open>res.edges.map((edge, index) => ...)\<close>\<close>
  "formatResult e index =
    (let output = js_or (output_data (Output (node e))) [];
         messages = (case Messages (node e) of None \<Rightarrow> [] | Some ms \<Rightarrow> ms);
         error = Error (node e)
     in ''--- Result '' @ show_nat (index + 1) @ '' (cursor: '' @ cursor e @ '') ---\<newline>''
        @ (if truthy error then ''Error: '' @ js_show error @ ''\<newline>'' else [])
        @ (if output \<noteq> [] then
             ''Output: '' @ take 200 output @ (if length output > 200 then ''...'' else [])
             @ ''\<newline>''
           else [])
        @ (case messages of
             [] \<Rightarrow> []
           | msg # _ \<Rightarrow>
               ''Message Action: '' @ js_or (opt_value (actionTag msg)) ''unknown'' @ ''\<newline>''
               @ (if truthy (Data msg) then
                    ''Message Data: '' @ take 200 (js_show (Data msg))
                    @ (if length (js_show (Data msg)) > 200 then ''...'' else [])
                    @ ''\<newline>''
                  else [])))"

definition executeListResults ::
  "('j, 's) env \<Rightarrow> tool_args \<Rightarrow> ('j, 's) net_call list \<times> ToolResult" where
  "executeListResults env args =
    (case process_id args of
       None \<Rightarrow> ([], error_result (invalid_process_id_text None))
     | Some pid \<Rightarrow>
        if invalid_process_id (Some pid) then
          ([], error_result (invalid_process_id_text (Some pid)))
        else
          (let req = \<lparr>rs_process = pid,
                      rs_limit = (case limit args of None \<Rightarrow> 10 | Some n \<Rightarrow> if n = 0 then 10 else n),
                      rs_from = from_cursor args,
                      rs_sort = js_or (sort args) ''DESC''\<rparr>
           in (case results env req of
                 Inl e \<Rightarrow>
                   ([Results req], error_result (''Error listing results: '' @ error_message e))
               | Inr res \<Rightarrow>
                   ([Results req],
                    (case opt_edges res of
                       None \<Rightarrow> text_result (''No results found for process '' @ pid)
                     | Some [] \<Rightarrow> text_result (''No results found for process '' @ pid)
                     | Some (e # es) \<Rightarrow>
                         text_result (''Results for process '' @ pid @ '':\<newline>\<newline>''
                           @ join ''\<newline>''
                               (map (\<lambda>(index, edge). formatResult edge index)
                                    (enumerate 0 (e # es)))))))))"

section \<open>Tool registry and dispatcher (tools/index.ts)\<close>

text \<open>
  The body of every executor is one \<^verbatim>\<open>try\<close> block whose \<^verbatim>\<open>catch\<close> returns an
  envelope, and the dispatcher is a \<^verbatim>\<open>switch\<close> on the name with a default branch that
  returns an envelope: no call of \<^verbatim>\<open>handleToolCall\<close> raises, so its model returns an
  envelope (and the calls made) for every name and argument object.
\<close>

definition TOOLS_names :: "string list" where
  \<comment> \<open>the \<^verbatim>\<open>name\<close> of each descriptor of \<^verbatim>\<open>TOOLS\<close>, in the order of the registry\<close>
  "TOOLS_names =
    [''ao_query_process'', ''ao_send_message'', ''ao_spawn_process'', ''ao_eval_lua'',
     ''ao_list_results'']"

definition handleToolCall ::
  "('j, 's) env \<Rightarrow> string \<Rightarrow> tool_args \<Rightarrow> ('j, 's) net_call list \<times> ToolResult" where
  "handleToolCall env tool_name args =
    (if tool_name = ''ao_query_process'' then executeQueryProcess env args
     else if tool_name = ''ao_send_message'' then executeSendMessage env args
     else if tool_name = ''ao_spawn_process'' then executeSpawnProcess env args
     else if tool_name = ''ao_eval_lua'' then executeEvalLua env args
     else if tool_name = ''ao_list_results'' then executeListResults env args
     else ([], error_result (''Unknown tool: '' @ tool_name)))"

section \<open>Example values\<close>

text \<open>
  The empty argument object, a process identifier of 43 characters, and a stand-in for the
  platform and the network client: it accepts as JSON the strings that open a brace,
  prints a parsed value as it was written, signs with the wallet itself and answers every
  request with the response it is given.
\<close>

definition no_args :: tool_args where
  "no_args = \<lparr>process_id = None, action = None, data = None, tags = None, wallet_json = None,
     name = None, module = None, scheduler = None, code = None, limit = None,
     from_cursor = None, sort = None\<rparr>"

definition pid_A :: string where
  "pid_A = replicate 43 (CHR ''A'')"

definition stub_env :: "response \<Rightarrow> (string, string) env" where
  "stub_env r =
    \<lparr>JSON_parse = (\<lambda>s. if take 1 s = ''{'' then Some s else None),
     JSON_stringify = (\<lambda>j. j),
     createDataItemSigner = (\<lambda>j. Inr j),
     dryrun = (\<lambda>_. Inr r),
     message = (\<lambda>_. Inr ''MSG-1''),
     result = (\<lambda>_. Inr (Some r)),
     spawn = (\<lambda>_. Inr ''NEW-PROCESS''),
     results = (\<lambda>_. Inr (Some \<lparr>edges = Some [\<lparr>cursor = ''c1'', node = r\<rparr>]\<rparr>))\<rparr>"

definition empty_response :: response where
  "empty_response = \<lparr>Messages = None, Output = None, Error = None\<rparr>"

definition error_tagged_response :: response where
  "error_tagged_response =
    \<lparr>Messages = Some [\<lparr>Tags = Some [\<lparr>tag_name = ''Action'', tag_value = Some ''Error''\<rparr>],
                        Data = Some ''boom''\<rparr>],
     Output = None, Error = None\<rparr>"

definition json_response :: response where
  "json_response =
    \<lparr>Messages = Some [\<lparr>Tags = Some [\<lparr>tag_name = ''Action'', tag_value = Some ''Info''\<rparr>],
                        Data = Some ''{}''\<rparr>],
     Output = None, Error = None\<rparr>"

definition output_and_error_response :: response where
  "output_and_error_response =
    \<lparr>Messages = None, Output = Some \<lparr>out_data = Some ''out''\<rparr>, Error = Some ''err''\<rparr>"

definition error_only_response :: response where
  "error_only_response =
    \<lparr>Messages = Some [], Output = Some \<lparr>out_data = Some []\<rparr>, Error = Some ''err''\<rparr>"

definition output_only_response :: response where
  "output_only_response =
    \<lparr>Messages = None, Output = Some \<lparr>out_data = Some ''out''\<rparr>, Error = None\<rparr>"

definition send_args :: tool_args where
  "send_args = no_args\<lparr>process_id := Some pid_A, action := Some ''Transfer'',
     wallet_json := Some ''{}''\<rparr>"

definition long_response :: response where
  "long_response =
    \<lparr>Messages = Some [\<lparr>Tags = None, Data = Some (replicate 200 (CHR ''y''))\<rparr>],
     Output = Some \<lparr>out_data = Some (replicate 201 (CHR ''x''))\<rparr>,
     Error = None\<rparr>"

definition eval_args :: tool_args where
  "eval_args = no_args\<lparr>process_id := Some pid_A, code := Some ''return 1'',
     wallet_json := Some ''{}''\<rparr>"

definition spawn_args :: tool_args where
  "spawn_args = no_args\<lparr>wallet_json := Some ''{}'',
     tags := Some [\<lparr>tag_name = ''Action'', tag_value = Some ''Init''\<rparr>]\<rparr>"

definition tagged_args :: tool_args where
  "tagged_args = no_args\<lparr>process_id := Some pid_A, action := Some ''Transfer'',
     tags := Some [\<lparr>tag_name = ''X-Custom'', tag_value = Some ''1''\<rparr>],
     wallet_json := Some ''{}'', name := Some ''MyProcess'', code := Some ''return 1''\<rparr>"

section \<open>Notions used in the statements\<close>

definition single_text_item :: "ToolResult \<Rightarrow> bool" where
  \<comment> \<open>the content array has exactly one element, and its type is "text"\<close>
  "single_text_item r = (case content r of [c] \<Rightarrow> item_type c = ''text'' | _ \<Rightarrow> False)"

definition truncated :: "string \<Rightarrow> string" where
  \<comment> \<open>the truncation law in the words of the specification: the first 200 characters and
      an ellipsis marker for a longer field, the field itself otherwise\<close>
  "truncated s = (if 200 < length s then take 200 s @ ''...'' else s)"

section \<open>Helper lemmas\<close>

lemma single_text_item_text_result: "single_text_item (text_result t)"
  by (simp add: single_text_item_def text_result_def)

lemma single_text_item_error_result: "single_text_item (error_result t)"
  by (simp add: single_text_item_def error_result_def)

lemmas single_text_item_intros = single_text_item_text_result single_text_item_error_result

lemma query_single: "single_text_item (snd (executeQueryProcess env args))"
  unfolding executeQueryProcess_def
  by (simp add: Let_def single_text_item_intros split: option.split sum.split)

lemma send_single: "single_text_item (snd (executeSendMessage env args))"
  unfolding executeSendMessage_def
  by (simp add: Let_def single_text_item_intros split: option.split sum.split)

lemma spawn_single: "single_text_item (snd (executeSpawnProcess env args))"
  unfolding executeSpawnProcess_def
  by (simp add: Let_def single_text_item_intros split: option.split sum.split)

lemma eval_single: "single_text_item (snd (executeEvalLua env args))"
  unfolding executeEvalLua_def
  by (simp add: Let_def single_text_item_intros split: option.split sum.split)

lemma list_single: "single_text_item (snd (executeListResults env args))"
  unfolding executeListResults_def
  by (simp add: Let_def single_text_item_intros split: option.split sum.split list.split)

lemma trim_blank:
  assumes "\<forall>c\<in>set s. is_whitespace c"
  shows "trim s = []"
proof -
  from assms have rest: "dropWhile is_whitespace s = []"
    by simp
  show ?thesis
    unfolding trim_def rest by simp
qed

lemma query_calls:
  assumes "process_id args = Some pid" "length pid = 43"
  shows "fst (executeQueryProcess env args)
    = [Dryrun \<lparr>dr_process = pid,
         dr_tags = \<lparr>tag_name = ''Action'', tag_value = Some (js_or (action args) ''Info'')\<rparr>
                   # caller_tags args,
         dr_data = js_or (data args) ''{}''\<rparr>]"
proof -
  from assms have "\<not> invalid_process_id (Some pid)"
    by (auto simp: invalid_process_id_def)
  with assms show ?thesis
    by (simp add: executeQueryProcess_def Let_def split: sum.split)
qed

lemma list_calls:
  assumes "process_id args = Some pid" "length pid = 43"
  shows "fst (executeListResults env args)
    = [Results \<lparr>rs_process = pid,
         rs_limit = (case limit args of None \<Rightarrow> 10 | Some n \<Rightarrow> if n = 0 then 10 else n),
         rs_from = from_cursor args, rs_sort = js_or (sort args) ''DESC''\<rparr>]"
proof -
  from assms have "\<not> invalid_process_id (Some pid)"
    by (auto simp: invalid_process_id_def)
  with assms show ?thesis
    by (simp add: executeListResults_def Let_def split: sum.split)
qed

lemma query_action_default:
  "executeQueryProcess env (args\<lparr>action := Some []\<rparr>) = executeQueryProcess env (args\<lparr>action := None\<rparr>)"
  by (cases "process_id args")
    (simp_all add: executeQueryProcess_def js_or_def caller_tags_def Let_def cong: if_cong)

lemma query_data_default:
  "executeQueryProcess env (args\<lparr>data := Some []\<rparr>) = executeQueryProcess env (args\<lparr>data := None\<rparr>)"
  by (cases "process_id args")
    (simp_all add: executeQueryProcess_def js_or_def caller_tags_def Let_def cong: if_cong)

lemma list_limit_default:
  "executeListResults env (args\<lparr>limit := Some 0\<rparr>) = executeListResults env (args\<lparr>limit := None\<rparr>)"
  by (cases "process_id args")
    (simp_all add: executeListResults_def Let_def cong: if_cong)

lemma query_run_inv:
  assumes "fst (executeQueryProcess env args) = [Dryrun req]"
  obtains pid where "process_id args = Some pid" "\<not> invalid_process_id (Some pid)"
    "req = \<lparr>dr_process = pid,
         dr_tags = \<lparr>tag_name = ''Action'', tag_value = Some (js_or (action args) ''Info'')\<rparr>
                   # caller_tags args,
         dr_data = js_or (data args) ''{}''\<rparr>"
proof (cases "process_id args")
  case None
  with assms show ?thesis
    by (simp add: executeQueryProcess_def)
next
  case (Some pid)
  show ?thesis
  proof (cases "invalid_process_id (Some pid)")
    case True
    with Some assms show ?thesis
      by (simp add: executeQueryProcess_def)
  next
    case False
    with Some assms have "req = \<lparr>dr_process = pid,
         dr_tags = \<lparr>tag_name = ''Action'', tag_value = Some (js_or (action args) ''Info'')\<rparr>
                   # caller_tags args,
         dr_data = js_or (data args) ''{}''\<rparr>"
      by (simp add: executeQueryProcess_def Let_def split: sum.splits)
    with Some False that show ?thesis
      by blast
  qed
qed

lemma query_result:
  assumes run: "fst (executeQueryProcess env args) = [Dryrun req]"
    and answer: "dryrun env req = Inr r"
  shows "snd (executeQueryProcess env args) =
      (case first_message (Messages r) of
         Some msg \<Rightarrow>
           if opt_value (actionTag msg) = Some ''Error'' then
             error_result (''Process returned error: '' @ js_show (Data msg))
           else
             text_result (''Process response (Action: ''
                @ js_or (opt_value (actionTag msg)) ''unknown'' @ ''):\<newline>''
                @ (case JSON_parse env (js_show (Data msg)) of
                     Some parsed \<Rightarrow> JSON_stringify env parsed
                   | None \<Rightarrow> js_show (Data msg)))
       | None \<Rightarrow>
           if truthy (output_data (Output r)) then
             text_result (''Process output:\<newline>'' @ js_show (output_data (Output r)))
           else if truthy (Error r) then
             error_result (''Process error: '' @ js_show (Error r))
           else
             text_result ''No response from process. The process may not have a handler for this action.'')"
proof -
  from run obtain pid where pid: "process_id args = Some pid" "\<not> invalid_process_id (Some pid)"
    and req: "req = \<lparr>dr_process = pid,
         dr_tags = \<lparr>tag_name = ''Action'', tag_value = Some (js_or (action args) ''Info'')\<rparr>
                   # caller_tags args,
         dr_data = js_or (data args) ''{}''\<rparr>"
    by (rule query_run_inv)
  from answer req have "dryrun env \<lparr>dr_process = pid,
         dr_tags = \<lparr>tag_name = ''Action'', tag_value = Some (js_or (action args) ''Info'')\<rparr>
                   # caller_tags args,
         dr_data = js_or (data args) ''{}''\<rparr> = Inr r"
    by simp
  with pid show ?thesis
    by (simp add: executeQueryProcess_def Let_def split: option.split)
qed

lemma send_run_inv:
  assumes "fst (executeSendMessage env args) = [CreateDataItemSigner jwk, Message mreq, Result rreq]"
  shows "\<exists>pid signer.
      process_id args = Some pid \<and> \<not> invalid_process_id (Some pid)
    \<and> truthy (wallet_json args)
    \<and> JSON_parse env (js_show (wallet_json args)) = Some jwk
    \<and> createDataItemSigner env jwk = Inr signer
    \<and> mreq = \<lparr>msg_process = pid, msg_signer = signer,
              msg_tags = \<lparr>tag_name = ''Action'', tag_value = action args\<rparr> # caller_tags args,
              msg_data = js_or (data args) ''{}''\<rparr>
    \<and> message env mreq = Inr (res_message rreq)
    \<and> rreq = \<lparr>res_process = pid, res_message = res_message rreq\<rparr>"
  using assms
  by (auto simp add: executeSendMessage_def Let_def split: option.splits if_splits sum.splits)

lemma send_result:
  assumes run: "fst (executeSendMessage env args) = [CreateDataItemSigner jwk, Message mreq, Result rreq]"
    and answer: "result env rreq = Inr res"
  shows "snd (executeSendMessage env args) =
      (case first_message (opt_Messages res) of
         Some msg \<Rightarrow>
           if opt_value (actionTag msg) = Some ''Error'' then
             error_result (''Message sent (ID: '' @ res_message rreq
               @ '') but process returned error:\<newline>'' @ js_show (Data msg))
           else
             text_result (''Message sent successfully!\<newline>Message ID: '' @ res_message rreq
               @ ''\<newline>Action: '' @ js_or (opt_value (actionTag msg)) ''unknown''
               @ ''\<newline>Response:\<newline>''
               @ (case JSON_parse env (js_show (Data msg)) of
                    Some parsed \<Rightarrow> JSON_stringify env parsed
                  | None \<Rightarrow> js_show (Data msg)))
       | None \<Rightarrow>
           if truthy (opt_Error res) then
             error_result (''Message sent (ID: '' @ res_message rreq
               @ '') but process error: '' @ js_show (opt_Error res))
           else if truthy (output_data (opt_Output res)) then
             text_result (''Message sent successfully!\<newline>Message ID: '' @ res_message rreq
               @ ''\<newline>Output:\<newline>'' @ js_show (output_data (opt_Output res)))
           else
             text_result (''Message sent successfully!\<newline>Message ID: '' @ res_message rreq
               @ ''\<newline>No response data returned.''))"
proof -
  from send_run_inv [OF run] obtain pid signer where
    steps: "process_id args = Some pid" "\<not> invalid_process_id (Some pid)"
      "truthy (wallet_json args)"
      "JSON_parse env (js_show (wallet_json args)) = Some jwk"
      "createDataItemSigner env jwk = Inr signer"
      "message env \<lparr>msg_process = pid, msg_signer = signer,
              msg_tags = \<lparr>tag_name = ''Action'', tag_value = action args\<rparr> # caller_tags args,
              msg_data = js_or (data args) ''{}''\<rparr> = Inr (res_message rreq)"
      "rreq = \<lparr>res_process = pid, res_message = res_message rreq\<rparr>"
    by blast
  from steps(7) answer have
    "result env \<lparr>res_process = pid, res_message = res_message rreq\<rparr> = Inr res"
    by simp
  with steps(1-6) show ?thesis
    by (simp add: executeSendMessage_def Let_def split: option.split)
qed

lemma mentions_wallet:
  "sublist ''wallet'' ''Error: wallet_json is required for sending messages. Provide the JSON content of your Arweave wallet.''"
  "sublist ''wallet'' ''Error: wallet_json is required for spawning processes. Provide the JSON content of your Arweave wallet.''"
  "sublist ''wallet'' ''Error: wallet_json is required for executing Lua code. Provide the JSON content of your Arweave wallet.''"
  "sublist ''wallet'' ''Error: Invalid wallet JSON. Ensure it is a valid Arweave JWK.''"
  by code_simp+

lemma result_text_error_result: "result_text (error_result t) = t"
  by (simp add: result_text_def error_result_def)

lemma no_wallet:
  assumes "wallet_json args = None \<or> wallet_json args = Some []
      \<or> (\<exists>w. wallet_json args = Some w \<and> JSON_parse env w = None)"
  shows "\<not> truthy (wallet_json args) \<or> JSON_parse env (js_show (wallet_json args)) = None"
  using assms by (auto simp: truthy_def js_show_def)

lemma spawn_no_wallet:
  assumes "\<not> truthy (wallet_json args) \<or> JSON_parse env (js_show (wallet_json args)) = None"
  shows "executeSpawnProcess env args
    = ([], error_result (if \<not> truthy (wallet_json args)
         then ''Error: wallet_json is required for spawning processes. Provide the JSON content of your Arweave wallet.''
         else ''Error: Invalid wallet JSON. Ensure it is a valid Arweave JWK.''))"
  using assms by (auto simp: executeSpawnProcess_def)

lemma send_no_wallet:
  assumes "\<not> truthy (wallet_json args) \<or> JSON_parse env (js_show (wallet_json args)) = None"
  shows "executeSendMessage env args
    = ([], error_result (if invalid_process_id (process_id args)
         then invalid_process_id_text (process_id args)
         else if \<not> truthy (wallet_json args)
         then ''Error: wallet_json is required for sending messages. Provide the JSON content of your Arweave wallet.''
         else ''Error: Invalid wallet JSON. Ensure it is a valid Arweave JWK.''))"
proof (cases "process_id args")
  case None
  then show ?thesis
    by (simp add: executeSendMessage_def invalid_process_id_def)
next
  case (Some pid)
  with assms show ?thesis
    by (auto simp: executeSendMessage_def)
qed

lemma eval_no_wallet:
  assumes "\<not> truthy (wallet_json args) \<or> JSON_parse env (js_show (wallet_json args)) = None"
  shows "executeEvalLua env args
    = ([], error_result (if invalid_process_id (process_id args)
         then invalid_process_id_text (process_id args)
         else if \<not> truthy (code args) \<or> length (trim (js_show (code args))) = 0
         then ''Error: code is required. Provide Lua code to execute.''
         else if \<not> truthy (wallet_json args)
         then ''Error: wallet_json is required for executing Lua code. Provide the JSON content of your Arweave wallet.''
         else ''Error: Invalid wallet JSON. Ensure it is a valid Arweave JWK.''))"
proof (cases "process_id args")
  case None
  then show ?thesis
    by (simp add: executeEvalLua_def invalid_process_id_def)
next
  case (Some pid)
  with assms show ?thesis
    by (auto simp: executeEvalLua_def)
qed

lemma formatResult_truncated:
  "formatResult e index =
     ''--- Result '' @ show_nat (index + 1) @ '' (cursor: '' @ cursor e @ '') ---\<newline>''
     @ (if truthy (Error (node e)) then ''Error: '' @ js_show (Error (node e)) @ ''\<newline>'' else [])
     @ (if truthy (output_data (Output (node e)))
        then ''Output: '' @ truncated (js_show (output_data (Output (node e)))) @ ''\<newline>''
        else [])
     @ (case first_message (Messages (node e)) of
          None \<Rightarrow> []
        | Some msg \<Rightarrow>
            ''Message Action: '' @ js_or (opt_value (actionTag msg)) ''unknown'' @ ''\<newline>''
            @ (if truthy (Data msg)
               then ''Message Data: '' @ truncated (js_show (Data msg)) @ ''\<newline>''
               else []))"
proof -
  have out: "js_or (output_data (Output (node e))) [] = js_show (output_data (Output (node e)))"
    if "truthy (output_data (Output (node e)))"
    using that by (auto simp: truthy_def js_or_def js_show_def split: option.splits)
  have none: "js_or (output_data (Output (node e))) [] = []"
    if "\<not> truthy (output_data (Output (node e)))"
    using that by (auto simp: truthy_def js_or_def split: option.splits)
  have nonempty: "js_show (output_data (Output (node e))) \<noteq> []"
    if "truthy (output_data (Output (node e)))"
    using that by (auto simp: truthy_def js_show_def split: option.splits)
  show ?thesis
  proof (cases "truthy (output_data (Output (node e)))")
    case True
    with out nonempty show ?thesis
      by (simp add: formatResult_def Let_def first_message_def truncated_def
          split: option.split list.split)
  next
    case False
    with none show ?thesis
      by (simp add: formatResult_def Let_def first_message_def truncated_def
          split: option.split list.split)
  qed
qed

lemma list_run_inv:
  assumes "fst (executeListResults env args) = [Results req]"
  shows "\<exists>pid. process_id args = Some pid \<and> \<not> invalid_process_id (Some pid)
    \<and> req = \<lparr>rs_process = pid,
         rs_limit = (case limit args of None \<Rightarrow> 10 | Some n \<Rightarrow> if n = 0 then 10 else n),
         rs_from = from_cursor args, rs_sort = js_or (sort args) ''DESC''\<rparr>"
  using assms
  by (auto simp: executeListResults_def Let_def split: option.splits if_splits sum.splits)

lemma list_result:
  assumes run: "fst (executeListResults env args) = [Results req]"
    and answer: "results env req = Inr (Some \<lparr>edges = Some es\<rparr>)"
    and some: "es \<noteq> []"
  shows "snd (executeListResults env args)
    = text_result (''Results for process '' @ js_show (process_id args) @ '':\<newline>\<newline>''
        @ join ''\<newline>'' (map (\<lambda>(index, edge). formatResult edge index) (enumerate 0 es)))"
proof -
  from list_run_inv [OF run] obtain pid where
    pid: "process_id args = Some pid" "\<not> invalid_process_id (Some pid)"
    and req: "req = \<lparr>rs_process = pid,
         rs_limit = (case limit args of None \<Rightarrow> 10 | Some n \<Rightarrow> if n = 0 then 10 else n),
         rs_from = from_cursor args, rs_sort = js_or (sort args) ''DESC''\<rparr>"
    by blast
  from some obtain e es' where es: "es = e # es'"
    by (cases es) auto
  from answer req have "results env \<lparr>rs_process = pid,
         rs_limit = (case limit args of None \<Rightarrow> 10 | Some n \<Rightarrow> if n = 0 then 10 else n),
         rs_from = from_cursor args, rs_sort = js_or (sort args) ''DESC''\<rparr>
       = Inr (Some \<lparr>edges = Some es\<rparr>)"
    by simp
  with pid es show ?thesis
    by (simp add: executeListResults_def Let_def opt_edges_def js_show_def)
qed

lemma show_nat_1: "show_nat (Suc 0) = ''1''"
  by (simp add: show_nat.simps [of "Suc 0"] digit_char_def)

lemma query_tags:
  "Dryrun req \<in> set (fst (executeQueryProcess env args)) \<Longrightarrow>
     dr_tags req = \<lparr>tag_name = ''Action'', tag_value = Some (js_or (action args) ''Info'')\<rparr>
                   # caller_tags args"
  by (auto simp: executeQueryProcess_def Let_def split: option.splits if_splits sum.splits)

lemma send_tags:
  "Message req \<in> set (fst (executeSendMessage env args)) \<Longrightarrow>
     msg_tags req = \<lparr>tag_name = ''Action'', tag_value = action args\<rparr> # caller_tags args"
  by (auto simp: executeSendMessage_def Let_def split: option.splits if_splits sum.splits)

lemma eval_tags:
  "Message req \<in> set (fst (executeEvalLua env args)) \<Longrightarrow>
     msg_tags req = [\<lparr>tag_name = ''Action'', tag_value = Some ''Eval''\<rparr>]"
  by (auto simp: executeEvalLua_def Let_def split: option.splits if_splits sum.splits)

lemma spawn_tags:
  "Spawn req \<in> set (fst (executeSpawnProcess env args)) \<Longrightarrow>
     sp_tags req = (if truthy (name args)
                    then [\<lparr>tag_name = ''Name'', tag_value = name args\<rparr>] else [])
                   @ caller_tags args"
  by (auto simp: executeSpawnProcess_def Let_def split: option.splits if_splits sum.splits)

section \<open>Input validation\<close>

text \<open>
  Claim C1. A process identifier whose length is not 43 (the empty string included, and
  also an absent identifier) makes each of the four executors that take one (query,
  send-message, evaluate-code, list-results) return an envelope with \<open>isError: true\<close>,
  and the list of calls on the network client is empty.
\<close>

theorem invalid_process_id_fails_fast:
  assumes "\<And>pid. process_id args = Some pid \<Longrightarrow> length pid \<noteq> 43"
  shows "(isError (snd (executeQueryProcess env args)) = Some True
            \<and> fst (executeQueryProcess env args) = [])
       \<and> (isError (snd (executeSendMessage env args)) = Some True
            \<and> fst (executeSendMessage env args) = [])
       \<and> (isError (snd (executeEvalLua env args)) = Some True
            \<and> fst (executeEvalLua env args) = [])
       \<and> (isError (snd (executeListResults env args)) = Some True
            \<and> fst (executeListResults env args) = [])"
proof (cases "process_id args")
  case None
  then show ?thesis
    by (simp add: executeQueryProcess_def executeSendMessage_def executeEvalLua_def
        executeListResults_def error_result_def)
next
  case (Some pid)
  with assms have "invalid_process_id (Some pid)"
    by (simp add: invalid_process_id_def)
  with Some show ?thesis
    by (simp add: executeQueryProcess_def executeSendMessage_def executeEvalLua_def
        executeListResults_def error_result_def)
qed

theorem invalid_process_id_fails_fast_witness:
  "length ''short'' \<noteq> (43::nat)
   \<and> executeQueryProcess (stub_env empty_response) (no_args\<lparr>process_id := Some ''short''\<rparr>)
       = ([], error_result (''Error: Invalid process ID '' @ dquote @ ''short'' @ dquote
            @ ''. Must be a 43-character Arweave transaction ID.''))
   \<and> isError (snd (executeSendMessage (stub_env empty_response) (no_args\<lparr>process_id := Some ''''\<rparr>))) = Some True
   \<and> fst (executeEvalLua (stub_env empty_response) (no_args\<lparr>process_id := Some ''short''\<rparr>)) = []
   \<and> fst (executeListResults (stub_env empty_response) (no_args\<lparr>process_id := Some ''short''\<rparr>)) = []"
  using invalid_process_id_fails_fast [of "no_args\<lparr>process_id := Some ''short''\<rparr>" "stub_env empty_response"]
    invalid_process_id_fails_fast [of "no_args\<lparr>process_id := Some ''''\<rparr>" "stub_env empty_response"]
  by (simp add: no_args_def executeQueryProcess_def invalid_process_id_def
      invalid_process_id_text_def js_show_def)

text \<open>
  Claim C8. When the code string is empty or consists of white space only (or is absent),
  the evaluate-code executor returns an envelope with \<open>isError: true\<close> and calls
  neither the signer derivation nor the network client, whatever the other arguments are.
\<close>

theorem blank_code_fails_fast:
  assumes "\<And>s. code args = Some s \<Longrightarrow> \<forall>c\<in>set s. is_whitespace c"
  shows "isError (snd (executeEvalLua env args)) = Some True \<and> fst (executeEvalLua env args) = []"
proof -
  have blank: "\<not> truthy (code args) \<or> length (trim (js_show (code args))) = 0"
  proof (cases "code args")
    case None
    then show ?thesis by (simp add: truthy_def)
  next
    case (Some s)
    with assms have "trim s = []" by (simp add: trim_blank)
    with Some show ?thesis by (simp add: js_show_def)
  qed
  show ?thesis
  proof (cases "process_id args")
    case None
    then show ?thesis by (simp add: executeEvalLua_def error_result_def)
  next
    case (Some pid)
    with blank show ?thesis
      by (simp add: executeEvalLua_def error_result_def)
  qed
qed

theorem blank_code_fails_fast_witness:
  "list_all is_whitespace ('' '' @ [CHR 0x09, CHR 0x0A] @ ''  '')
   \<and> executeEvalLua (stub_env empty_response)
        (no_args\<lparr>process_id := Some pid_A, code := Some ('' '' @ [CHR 0x09, CHR 0x0A] @ ''  ''),
                 wallet_json := Some ''{}''\<rparr>)
      = ([], error_result ''Error: code is required. Provide Lua code to execute.'')
   \<and> isError (snd (executeEvalLua (stub_env empty_response)
        (no_args\<lparr>process_id := Some pid_A, code := Some [], wallet_json := Some ''{}''\<rparr>))) = Some True"
  using blank_code_fails_fast [of "no_args\<lparr>process_id := Some pid_A,
      code := Some ('' '' @ [CHR 0x09, CHR 0x0A] @ ''  ''), wallet_json := Some ''{}''\<rparr>" "stub_env empty_response"]
    blank_code_fails_fast [of "no_args\<lparr>process_id := Some pid_A, code := Some [],
      wallet_json := Some ''{}''\<rparr>" "stub_env empty_response"]
  by (simp add: no_args_def executeEvalLua_def invalid_process_id_def pid_A_def is_whitespace_def
      truthy_def trim_def js_show_def)

text \<open>
  Claim C4, as amended. When the wallet key material is absent, empty or rejected by
  \<^verbatim>\<open>JSON.parse\<close>, each write-path executor (send-message, spawn-process, evaluate-code)
  returns an envelope with \<open>isError: true\<close> and calls neither the signer derivation nor
  the network client. The text mentions \<open>wallet\<close> whenever the checks that come before
  the wallet check pass: always for spawn-process, for a process identifier of 43
  characters in send-message, and for such an identifier and a code string that is not
  blank in evaluate-code.
\<close>

theorem wallet_validation:
  assumes "wallet_json args = None \<or> wallet_json args = Some []
      \<or> (\<exists>w. wallet_json args = Some w \<and> JSON_parse env w = None)"
  shows "(isError (snd (executeSendMessage env args)) = Some True
            \<and> fst (executeSendMessage env args) = [])
       \<and> (isError (snd (executeSpawnProcess env args)) = Some True
            \<and> fst (executeSpawnProcess env args) = [])
       \<and> (isError (snd (executeEvalLua env args)) = Some True
            \<and> fst (executeEvalLua env args) = [])
       \<and> sublist ''wallet'' (result_text (snd (executeSpawnProcess env args)))
       \<and> (\<forall>pid. process_id args = Some pid \<and> length pid = 43 \<longrightarrow>
            sublist ''wallet'' (result_text (snd (executeSendMessage env args))))
       \<and> (\<forall>pid c. process_id args = Some pid \<and> length pid = 43
              \<and> code args = Some c \<and> trim c \<noteq> [] \<longrightarrow>
            sublist ''wallet'' (result_text (snd (executeEvalLua env args))))"
proof -
  note absent = no_wallet [OF assms]
  have valid: "\<not> invalid_process_id (process_id args)"
    if "process_id args = Some pid" "length pid = 43" for pid
    using that by (auto simp: invalid_process_id_def)
  have code_ok: "\<not> (\<not> truthy (code args) \<or> length (trim (js_show (code args))) = 0)"
    if "code args = Some c" "trim c \<noteq> []" for c
    using that by (auto simp: truthy_def js_show_def trim_def)
  have "isError (snd (executeSendMessage env args)) = Some True
      \<and> fst (executeSendMessage env args) = []"
    by (simp add: send_no_wallet [OF absent] error_result_def)
  moreover have "isError (snd (executeSpawnProcess env args)) = Some True
      \<and> fst (executeSpawnProcess env args) = []"
    by (simp add: spawn_no_wallet [OF absent] error_result_def)
  moreover have "isError (snd (executeEvalLua env args)) = Some True
      \<and> fst (executeEvalLua env args) = []"
    by (simp add: eval_no_wallet [OF absent] error_result_def)
  moreover have "sublist ''wallet'' (result_text (snd (executeSpawnProcess env args)))"
    by (simp add: spawn_no_wallet [OF absent] result_text_error_result mentions_wallet)
  moreover have "sublist ''wallet'' (result_text (snd (executeSendMessage env args)))"
    if "process_id args = Some pid" "length pid = 43" for pid
    using valid [OF that]
    by (simp add: send_no_wallet [OF absent] result_text_error_result mentions_wallet)
  moreover have "sublist ''wallet'' (result_text (snd (executeEvalLua env args)))"
    if "process_id args = Some pid" "length pid = 43" "code args = Some c" "trim c \<noteq> []"
    for pid c
    using valid [OF that(1,2)] code_ok [OF that(3,4)]
    by (simp add: eval_no_wallet [OF absent] result_text_error_result mentions_wallet)
  ultimately show ?thesis
    by blast
qed

theorem wallet_validation_witness:
  "wallet_json (eval_args\<lparr>wallet_json := None\<rparr>) = None
   \<and> executeSendMessage (stub_env empty_response) (eval_args\<lparr>wallet_json := None\<rparr>)
     = ([], error_result ''Error: wallet_json is required for sending messages. Provide the JSON content of your Arweave wallet.'')
   \<and> sublist ''wallet'' (result_text (snd (executeSendMessage (stub_env empty_response)
        (eval_args\<lparr>wallet_json := None\<rparr>))))
   \<and> sublist ''wallet'' (result_text (snd (executeSpawnProcess (stub_env empty_response)
        (eval_args\<lparr>wallet_json := None\<rparr>))))
   \<and> sublist ''wallet'' (result_text (snd (executeEvalLua (stub_env empty_response)
        (eval_args\<lparr>wallet_json := None\<rparr>))))
   \<and> JSON_parse (stub_env empty_response) ''not json'' = None
   \<and> isError (snd (executeEvalLua (stub_env empty_response)
        (eval_args\<lparr>wallet_json := Some ''not json''\<rparr>))) = Some True
   \<and> fst (executeEvalLua (stub_env empty_response)
        (eval_args\<lparr>wallet_json := Some ''not json''\<rparr>)) = []
   \<and> sublist ''wallet'' (result_text (snd (executeEvalLua (stub_env empty_response)
        (eval_args\<lparr>wallet_json := Some ''not json''\<rparr>))))"
proof -
  let ?env = "stub_env empty_response"
  let ?absent = "eval_args\<lparr>wallet_json := None\<rparr>"
  let ?broken = "eval_args\<lparr>wallet_json := Some ''not json''\<rparr>"
  have absent: "wallet_json ?absent = None \<or> wallet_json ?absent = Some []
      \<or> (\<exists>w. wallet_json ?absent = Some w \<and> JSON_parse ?env w = None)"
    by simp
  have unparsed: "JSON_parse ?env ''not json'' = None"
    by (simp add: stub_env_def)
  then have broken: "wallet_json ?broken = None \<or> wallet_json ?broken = Some []
      \<or> (\<exists>w. wallet_json ?broken = Some w \<and> JSON_parse ?env w = None)"
    by simp
  have pid: "process_id ?absent = Some pid_A \<and> length pid_A = 43"
    "process_id ?broken = Some pid_A \<and> length pid_A = 43"
    by (simp_all add: eval_args_def pid_A_def)
  have code: "code ?absent = Some ''return 1'' \<and> trim ''return 1'' \<noteq> []"
    "code ?broken = Some ''return 1'' \<and> trim ''return 1'' \<noteq> []"
    by (simp_all add: eval_args_def trim_def is_whitespace_def)
  have send: "executeSendMessage ?env ?absent
     = ([], error_result ''Error: wallet_json is required for sending messages. Provide the JSON content of your Arweave wallet.'')"
    by (simp add: executeSendMessage_def eval_args_def no_args_def pid_A_def
        invalid_process_id_def truthy_def)
  from wallet_validation [OF absent] pid(1) code(1)
  have "sublist ''wallet'' (result_text (snd (executeSendMessage ?env ?absent)))
      \<and> sublist ''wallet'' (result_text (snd (executeSpawnProcess ?env ?absent)))
      \<and> sublist ''wallet'' (result_text (snd (executeEvalLua ?env ?absent)))"
    by blast
  moreover from wallet_validation [OF broken] pid(2) code(2)
  have "isError (snd (executeEvalLua ?env ?broken)) = Some True
      \<and> fst (executeEvalLua ?env ?broken) = []
      \<and> sublist ''wallet'' (result_text (snd (executeEvalLua ?env ?broken)))"
    by blast
  ultimately show ?thesis
    using send unparsed by simp
qed

text \<open>
  Counterexample to claim C4 as stated: send-message with no wallet and the process
  identifier \<open>short\<close> reports the identifier, and its text does not mention the wallet.
\<close>

theorem wallet_error_hidden_by_process_id_error:
  "wallet_json (no_args\<lparr>process_id := Some ''short''\<rparr>) = None
   \<and> snd (executeSendMessage (stub_env empty_response) (no_args\<lparr>process_id := Some ''short''\<rparr>))
     = error_result (''Error: Invalid process ID '' @ dquote @ ''short'' @ dquote
         @ ''. Must be a 43-character Arweave transaction ID.'')
   \<and> \<not> sublist ''wallet'' (result_text (snd (executeSendMessage (stub_env empty_response)
          (no_args\<lparr>process_id := Some ''short''\<rparr>))))"
proof -
  have run: "snd (executeSendMessage (stub_env empty_response) (no_args\<lparr>process_id := Some ''short''\<rparr>))
     = error_result (''Error: Invalid process ID '' @ dquote @ ''short'' @ dquote
         @ ''. Must be a 43-character Arweave transaction ID.'')"
    by (simp add: executeSendMessage_def no_args_def invalid_process_id_def
        invalid_process_id_text_def js_show_def)
  have "\<not> sublist ''wallet'' (''Error: Invalid process ID '' @ dquote @ ''short'' @ dquote
         @ ''. Must be a 43-character Arweave transaction ID.'')"
    unfolding dquote_def by code_simp
  with run show ?thesis
    by (simp add: result_text_error_result no_args_def)
qed

section \<open>Defaults\<close>

text \<open>
  Claim C10. A falsy value that is present is treated as an absent one: the query executor
  answers an empty \<open>action\<close> as it answers a missing one, and sends the Action tag
  \<open>Info\<close>; it answers an empty \<open>data\<close> as a missing one, and sends \<open>{}\<close>; the
  list-results executor answers \<open>limit\<close> 0 as a missing limit, and asks for 10 results.
\<close>

theorem falsy_values_take_defaults:
  "executeQueryProcess env (args\<lparr>action := Some []\<rparr>) = executeQueryProcess env (args\<lparr>action := None\<rparr>)
   \<and> executeQueryProcess env (args\<lparr>data := Some []\<rparr>) = executeQueryProcess env (args\<lparr>data := None\<rparr>)
   \<and> executeListResults env (args\<lparr>limit := Some 0\<rparr>) = executeListResults env (args\<lparr>limit := None\<rparr>)
   \<and> (process_id args = Some pid \<and> length pid = 43 \<longrightarrow>
        (\<exists>req. fst (executeQueryProcess env (args\<lparr>action := Some []\<rparr>)) = [Dryrun req]
           \<and> dr_tags req = \<lparr>tag_name = ''Action'', tag_value = Some ''Info''\<rparr> # caller_tags args)
      \<and> (\<exists>req. fst (executeQueryProcess env (args\<lparr>data := Some []\<rparr>)) = [Dryrun req]
           \<and> dr_data req = ''{}'')
      \<and> (\<exists>req. fst (executeListResults env (args\<lparr>limit := Some 0\<rparr>)) = [Results req]
           \<and> rs_limit req = 10))"
proof -
  have "\<exists>req. fst (executeQueryProcess env (args\<lparr>action := Some []\<rparr>)) = [Dryrun req]
           \<and> dr_tags req = \<lparr>tag_name = ''Action'', tag_value = Some ''Info''\<rparr> # caller_tags args"
    if "process_id args = Some pid" "length pid = 43"
    using that query_calls [of "args\<lparr>action := Some []\<rparr>" pid env]
    by (simp add: js_or_def caller_tags_def)
  moreover have "\<exists>req. fst (executeQueryProcess env (args\<lparr>data := Some []\<rparr>)) = [Dryrun req]
           \<and> dr_data req = ''{}''"
    if "process_id args = Some pid" "length pid = 43"
    using that query_calls [of "args\<lparr>data := Some []\<rparr>" pid env]
    by (simp add: js_or_def)
  moreover have "\<exists>req. fst (executeListResults env (args\<lparr>limit := Some 0\<rparr>)) = [Results req]
           \<and> rs_limit req = 10"
    if "process_id args = Some pid" "length pid = 43"
    using that list_calls [of "args\<lparr>limit := Some 0\<rparr>" pid env]
    by simp
  ultimately show ?thesis
    using query_action_default [of env args] query_data_default [of env args]
      list_limit_default [of env args]
    by blast
qed

theorem falsy_values_take_defaults_witness:
  "length pid_A = 43
   \<and> (\<exists>req. fst (executeQueryProcess (stub_env empty_response)
                 (no_args\<lparr>process_id := Some pid_A, action := Some []\<rparr>)) = [Dryrun req]
           \<and> dr_tags req = [\<lparr>tag_name = ''Action'', tag_value = Some ''Info''\<rparr>])
   \<and> (\<exists>req. fst (executeQueryProcess (stub_env empty_response)
                 (no_args\<lparr>process_id := Some pid_A, data := Some []\<rparr>)) = [Dryrun req]
           \<and> dr_data req = ''{}'')
   \<and> (\<exists>req. fst (executeListResults (stub_env empty_response)
                 (no_args\<lparr>process_id := Some pid_A, limit := Some 0\<rparr>)) = [Results req]
           \<and> rs_limit req = 10)"
proof -
  let ?args = "no_args\<lparr>process_id := Some pid_A\<rparr>"
  have len: "length pid_A = 43"
    by (simp add: pid_A_def)
  then have "process_id ?args = Some pid_A \<and> length pid_A = 43"
    by simp
  with falsy_values_take_defaults [of "stub_env empty_response" ?args pid_A]
  have "(\<exists>req. fst (executeQueryProcess (stub_env empty_response)
                 (no_args\<lparr>process_id := Some pid_A, action := Some []\<rparr>)) = [Dryrun req]
           \<and> dr_tags req = \<lparr>tag_name = ''Action'', tag_value = Some ''Info''\<rparr> # caller_tags ?args)
   \<and> (\<exists>req. fst (executeQueryProcess (stub_env empty_response)
                 (no_args\<lparr>process_id := Some pid_A, data := Some []\<rparr>)) = [Dryrun req]
           \<and> dr_data req = ''{}'')
   \<and> (\<exists>req. fst (executeListResults (stub_env empty_response)
                 (no_args\<lparr>process_id := Some pid_A, limit := Some 0\<rparr>)) = [Results req]
           \<and> rs_limit req = 10)"
    by blast
  moreover have "caller_tags ?args = []"
    by (simp add: caller_tags_def no_args_def)
  ultimately show ?thesis
    using len by simp
qed

section \<open>The dispatcher and the result envelope\<close>

text \<open>
  Claim C6. For a tool name that is not one of the five registered names the dispatcher
  returns an envelope with \<open>isError: true\<close> whose text is \<open>Unknown tool: \<close> followed
  by the name, and calls nothing; for \<open>ao_nonexistent\<close> the text is
  \<open>Unknown tool: ao_nonexistent\<close>.
\<close>

theorem unknown_tool_error:
  assumes "tool_name \<notin> set TOOLS_names"
  shows "handleToolCall env tool_name args
         = ([], \<lparr>content = [\<lparr>item_type = ''text'', item_text = ''Unknown tool: '' @ tool_name\<rparr>],
                 isError = Some True\<rparr>)"
  using assms by (simp add: handleToolCall_def TOOLS_names_def error_result_def)

theorem unknown_tool_error_witness:
  "''ao_nonexistent'' \<notin> set TOOLS_names
   \<and> handleToolCall (stub_env empty_response) ''ao_nonexistent'' no_args
       = ([], \<lparr>content = [\<lparr>item_type = ''text'', item_text = ''Unknown tool: ao_nonexistent''\<rparr>],
               isError = Some True\<rparr>)"
  using unknown_tool_error [of "''ao_nonexistent''" "stub_env empty_response" no_args]
  by (simp add: TOOLS_names_def)

text \<open>
  Claim C9. For every tool name and argument object, the envelope returned by the
  dispatcher, and the envelope returned by each of the five executors on every branch,
  has a content array of length one whose element has the type \<open>text\<close>.
\<close>

theorem envelope_has_one_text_item:
  "single_text_item (snd (handleToolCall env tool_name args))
   \<and> single_text_item (snd (executeQueryProcess env args))
   \<and> single_text_item (snd (executeSendMessage env args))
   \<and> single_text_item (snd (executeSpawnProcess env args))
   \<and> single_text_item (snd (executeEvalLua env args))
   \<and> single_text_item (snd (executeListResults env args))"
  unfolding handleToolCall_def
  by (simp add: query_single send_single spawn_single eval_single list_single
      single_text_item_error_result)

theorem envelope_has_one_text_item_witness:
  "single_text_item (snd (handleToolCall (stub_env empty_response) ''ao_list_results''
      (no_args\<lparr>process_id := Some pid_A\<rparr>)))
   \<and> content (snd (handleToolCall (stub_env empty_response) ''ao_nonexistent'' no_args))
       = [\<lparr>item_type = ''text'', item_text = ''Unknown tool: ao_nonexistent''\<rparr>]"
  using envelope_has_one_text_item [of "stub_env empty_response" "''ao_list_results''"
      "no_args\<lparr>process_id := Some pid_A\<rparr>"]
  by (simp add: handleToolCall_def error_result_def)

section \<open>Response interpretation\<close>

text \<open>
  Claim C2. When the read-only evaluation answers, the query executor reads the response
  in this order: (1) when there is a returned message and the Action tag of the first one
  is \<open>Error\<close>, it returns an error envelope with that message's data; (2) when there is
  a returned message otherwise, it returns the first message's data as a success, printed
  by \<^verbatim>\<open>JSON.stringify\<close> if \<^verbatim>\<open>JSON.parse\<close> accepts it and raw if not; (3) when there
  is no message and the output data is present, it returns the output data as a success;
  (4) when there is neither and the error field is present, it returns the error field in
  an error envelope; (5) otherwise it returns the message that there is no response, as a
  success. A field is present when it is a non-empty string: the code tests it with
  \<^verbatim>\<open>if (field)\<close>, as it does for every other optional value.
\<close>

theorem query_response_priority:
  assumes run: "fst (executeQueryProcess env args) = [Dryrun req]"
    and answer: "dryrun env req = Inr r"
  shows "(\<forall>m ms. Messages r = Some (m # ms) \<and> opt_value (actionTag m) = Some ''Error'' \<longrightarrow>
            snd (executeQueryProcess env args)
            = error_result (''Process returned error: '' @ js_show (Data m)))
       \<and> (\<forall>m ms. Messages r = Some (m # ms) \<and> opt_value (actionTag m) \<noteq> Some ''Error'' \<longrightarrow>
            snd (executeQueryProcess env args)
            = text_result (''Process response (Action: ''
                @ js_or (opt_value (actionTag m)) ''unknown'' @ ''):\<newline>''
                @ (case JSON_parse env (js_show (Data m)) of
                     Some parsed \<Rightarrow> JSON_stringify env parsed
                   | None \<Rightarrow> js_show (Data m))))
       \<and> ((Messages r = None \<or> Messages r = Some []) \<and> truthy (output_data (Output r)) \<longrightarrow>
            snd (executeQueryProcess env args)
            = text_result (''Process output:\<newline>'' @ js_show (output_data (Output r))))
       \<and> ((Messages r = None \<or> Messages r = Some []) \<and> \<not> truthy (output_data (Output r))
            \<and> truthy (Error r) \<longrightarrow>
            snd (executeQueryProcess env args)
            = error_result (''Process error: '' @ js_show (Error r)))
       \<and> ((Messages r = None \<or> Messages r = Some []) \<and> \<not> truthy (output_data (Output r))
            \<and> \<not> truthy (Error r) \<longrightarrow>
            snd (executeQueryProcess env args)
            = text_result ''No response from process. The process may not have a handler for this action.'')"
  unfolding query_result [OF run answer]
  by (auto simp: first_message_def)

theorem query_response_priority_witness:
  "snd (executeQueryProcess (stub_env error_tagged_response) (no_args\<lparr>process_id := Some pid_A\<rparr>))
     = error_result ''Process returned error: boom''
   \<and> snd (executeQueryProcess (stub_env json_response) (no_args\<lparr>process_id := Some pid_A\<rparr>))
     = text_result ''Process response (Action: Info):\<newline>{}''
   \<and> snd (executeQueryProcess (stub_env output_and_error_response) (no_args\<lparr>process_id := Some pid_A\<rparr>))
     = text_result ''Process output:\<newline>out''
   \<and> snd (executeQueryProcess (stub_env error_only_response) (no_args\<lparr>process_id := Some pid_A\<rparr>))
     = error_result ''Process error: err''
   \<and> snd (executeQueryProcess (stub_env empty_response) (no_args\<lparr>process_id := Some pid_A\<rparr>))
     = text_result ''No response from process. The process may not have a handler for this action.''"
proof -
  let ?args = "no_args\<lparr>process_id := Some pid_A\<rparr>"
  let ?req = "\<lparr>dr_process = pid_A,
         dr_tags = \<lparr>tag_name = ''Action'', tag_value = Some (js_or (action ?args) ''Info'')\<rparr>
                   # caller_tags ?args,
         dr_data = js_or (data ?args) ''{}''\<rparr>"
  have run: "fst (executeQueryProcess (stub_env r) ?args) = [Dryrun ?req]" for r
    by (rule query_calls) (simp_all add: pid_A_def)
  have answer: "dryrun (stub_env r) ?req = Inr r" for r
    by (simp add: stub_env_def)
  note priority = query_response_priority [OF run answer]
  have "snd (executeQueryProcess (stub_env error_tagged_response) ?args)
      = error_result ''Process returned error: boom''"
    using priority [of error_tagged_response]
    by (simp add: error_tagged_response_def actionTag_def opt_value_def js_show_def)
  moreover have "snd (executeQueryProcess (stub_env json_response) ?args)
      = text_result ''Process response (Action: Info):\<newline>{}''"
    using priority [of json_response]
    by (simp add: json_response_def actionTag_def opt_value_def js_show_def js_or_def stub_env_def)
  moreover have "snd (executeQueryProcess (stub_env output_and_error_response) ?args)
      = text_result ''Process output:\<newline>out''"
    using priority [of output_and_error_response]
    by (simp add: output_and_error_response_def output_data_def truthy_def js_show_def)
  moreover have "snd (executeQueryProcess (stub_env error_only_response) ?args)
      = error_result ''Process error: err''"
    using priority [of error_only_response]
    by (simp add: error_only_response_def output_data_def truthy_def js_show_def)
  moreover have "snd (executeQueryProcess (stub_env empty_response) ?args)
      = text_result ''No response from process. The process may not have a handler for this action.''"
    using priority [of empty_response]
    by (simp add: empty_response_def output_data_def truthy_def)
  ultimately show ?thesis
    by simp
qed

text \<open>
  Claim C3, as amended. When the outcome fetch answers, the send-message executor reads
  the outcome in this order: (1) an Error-tagged first message gives an error envelope
  which includes the message identifier; (2) another first message gives its data, printed
  as JSON or raw; (3) with no message, a present error field gives an error envelope;
  (4) with neither, present output data gives a success; (5) otherwise a success says that
  no response data was returned. This is not the order of the query executor: for the same
  response without messages, with output data and an error field, send-message returns the
  error and the query executor returns the output.
\<close>

theorem send_response_priority:
  assumes run: "fst (executeSendMessage env args) = [CreateDataItemSigner jwk, Message mreq, Result rreq]"
    and answer: "result env rreq = Inr res"
  shows "(\<forall>m ms. opt_Messages res = Some (m # ms) \<and> opt_value (actionTag m) = Some ''Error'' \<longrightarrow>
            snd (executeSendMessage env args)
            = error_result (''Message sent (ID: '' @ res_message rreq
                @ '') but process returned error:\<newline>'' @ js_show (Data m)))
       \<and> (\<forall>m ms. opt_Messages res = Some (m # ms) \<and> opt_value (actionTag m) \<noteq> Some ''Error'' \<longrightarrow>
            snd (executeSendMessage env args)
            = text_result (''Message sent successfully!\<newline>Message ID: '' @ res_message rreq
                @ ''\<newline>Action: '' @ js_or (opt_value (actionTag m)) ''unknown''
                @ ''\<newline>Response:\<newline>''
                @ (case JSON_parse env (js_show (Data m)) of
                     Some parsed \<Rightarrow> JSON_stringify env parsed
                   | None \<Rightarrow> js_show (Data m))))
       \<and> ((opt_Messages res = None \<or> opt_Messages res = Some []) \<and> truthy (opt_Error res) \<longrightarrow>
            snd (executeSendMessage env args)
            = error_result (''Message sent (ID: '' @ res_message rreq
                @ '') but process error: '' @ js_show (opt_Error res)))
       \<and> ((opt_Messages res = None \<or> opt_Messages res = Some []) \<and> \<not> truthy (opt_Error res)
            \<and> truthy (output_data (opt_Output res)) \<longrightarrow>
            snd (executeSendMessage env args)
            = text_result (''Message sent successfully!\<newline>Message ID: '' @ res_message rreq
                @ ''\<newline>Output:\<newline>'' @ js_show (output_data (opt_Output res))))
       \<and> ((opt_Messages res = None \<or> opt_Messages res = Some []) \<and> \<not> truthy (opt_Error res)
            \<and> \<not> truthy (output_data (opt_Output res)) \<longrightarrow>
            snd (executeSendMessage env args)
            = text_result (''Message sent successfully!\<newline>Message ID: '' @ res_message rreq
                @ ''\<newline>No response data returned.''))
       \<and> (\<forall>env' args' req r.
            fst (executeQueryProcess env' args') = [Dryrun req] \<and> dryrun env' req = Inr r
            \<and> res = Some r \<and> (Messages r = None \<or> Messages r = Some [])
            \<and> truthy (output_data (Output r)) \<and> truthy (Error r) \<longrightarrow>
            isError (snd (executeSendMessage env args)) = Some True
            \<and> isError (snd (executeQueryProcess (env' :: ('j, 's) env) args')) = None)"
proof -
  have in_order: "(\<forall>m ms. opt_Messages res = Some (m # ms) \<and> opt_value (actionTag m) = Some ''Error'' \<longrightarrow>
            snd (executeSendMessage env args)
            = error_result (''Message sent (ID: '' @ res_message rreq
                @ '') but process returned error:\<newline>'' @ js_show (Data m)))
       \<and> (\<forall>m ms. opt_Messages res = Some (m # ms) \<and> opt_value (actionTag m) \<noteq> Some ''Error'' \<longrightarrow>
            snd (executeSendMessage env args)
            = text_result (''Message sent successfully!\<newline>Message ID: '' @ res_message rreq
                @ ''\<newline>Action: '' @ js_or (opt_value (actionTag m)) ''unknown''
                @ ''\<newline>Response:\<newline>''
                @ (case JSON_parse env (js_show (Data m)) of
                     Some parsed \<Rightarrow> JSON_stringify env parsed
                   | None \<Rightarrow> js_show (Data m))))
       \<and> ((opt_Messages res = None \<or> opt_Messages res = Some []) \<and> truthy (opt_Error res) \<longrightarrow>
            snd (executeSendMessage env args)
            = error_result (''Message sent (ID: '' @ res_message rreq
                @ '') but process error: '' @ js_show (opt_Error res)))
       \<and> ((opt_Messages res = None \<or> opt_Messages res = Some []) \<and> \<not> truthy (opt_Error res)
            \<and> truthy (output_data (opt_Output res)) \<longrightarrow>
            snd (executeSendMessage env args)
            = text_result (''Message sent successfully!\<newline>Message ID: '' @ res_message rreq
                @ ''\<newline>Output:\<newline>'' @ js_show (output_data (opt_Output res))))
       \<and> ((opt_Messages res = None \<or> opt_Messages res = Some []) \<and> \<not> truthy (opt_Error res)
            \<and> \<not> truthy (output_data (opt_Output res)) \<longrightarrow>
            snd (executeSendMessage env args)
            = text_result (''Message sent successfully!\<newline>Message ID: '' @ res_message rreq
                @ ''\<newline>No response data returned.''))"
    unfolding send_result [OF run answer]
    by (auto simp: first_message_def)
  have "isError (snd (executeSendMessage env args)) = Some True
      \<and> isError (snd (executeQueryProcess env' args')) = None"
    if "fst (executeQueryProcess env' args') = [Dryrun req]" "dryrun env' req = Inr r"
      "res = Some r" "Messages r = None \<or> Messages r = Some []"
      "truthy (output_data (Output r))" "truthy (Error r)"
    for env' :: "('j, 's) env" and args' req r
    using that
    unfolding send_result [OF run answer] query_result [OF that(1,2)]
    by (auto simp: first_message_def opt_Messages_def opt_Error_def error_result_def
        text_result_def)
  then have reversed: "(\<forall>env' args' req r.
            fst (executeQueryProcess env' args') = [Dryrun req] \<and> dryrun env' req = Inr r
            \<and> res = Some r \<and> (Messages r = None \<or> Messages r = Some [])
            \<and> truthy (output_data (Output r)) \<and> truthy (Error r) \<longrightarrow>
            isError (snd (executeSendMessage env args)) = Some True
            \<and> isError (snd (executeQueryProcess (env' :: ('j, 's) env) args')) = None)"
    by blast
  from in_order reversed show ?thesis
    by (elim conjE) (intro conjI; assumption)
qed

theorem send_response_priority_witness:
  "snd (executeSendMessage (stub_env error_tagged_response) send_args)
     = error_result ''Message sent (ID: MSG-1) but process returned error:\<newline>boom''
   \<and> snd (executeSendMessage (stub_env json_response) send_args)
     = text_result ''Message sent successfully!\<newline>Message ID: MSG-1\<newline>Action: Info\<newline>Response:\<newline>{}''
   \<and> snd (executeSendMessage (stub_env output_and_error_response) send_args)
     = error_result ''Message sent (ID: MSG-1) but process error: err''
   \<and> snd (executeSendMessage (stub_env output_only_response) send_args)
     = text_result ''Message sent successfully!\<newline>Message ID: MSG-1\<newline>Output:\<newline>out''
   \<and> snd (executeSendMessage (stub_env empty_response) send_args)
     = text_result ''Message sent successfully!\<newline>Message ID: MSG-1\<newline>No response data returned.''
   \<and> isError (snd (executeSendMessage (stub_env output_and_error_response) send_args)) = Some True
   \<and> isError (snd (executeQueryProcess (stub_env output_and_error_response) send_args)) = None"
proof -
  let ?mreq = "\<lparr>msg_process = pid_A, msg_signer = ''{}'',
      msg_tags = [\<lparr>tag_name = ''Action'', tag_value = Some ''Transfer''\<rparr>], msg_data = ''{}''\<rparr>"
  let ?rreq = "\<lparr>res_process = pid_A, res_message = ''MSG-1''\<rparr>"
  have run: "fst (executeSendMessage (stub_env r) send_args)
      = [CreateDataItemSigner ''{}'', Message ?mreq, Result ?rreq]" for r
    by (simp add: executeSendMessage_def send_args_def no_args_def stub_env_def pid_A_def
        invalid_process_id_def truthy_def js_show_def js_or_def caller_tags_def Let_def)
  have answer: "result (stub_env r) ?rreq = Inr (Some r)" for r
    by (simp add: stub_env_def)
  note priority = send_response_priority [OF run answer]
  note error_tagged = priority [THEN conjunct1]
  note first_data = priority [THEN conjunct2, THEN conjunct1]
  note error_field = priority [THEN conjunct2, THEN conjunct2, THEN conjunct1]
  note output_field = priority [THEN conjunct2, THEN conjunct2, THEN conjunct2, THEN conjunct1]
  note no_data = priority [THEN conjunct2, THEN conjunct2, THEN conjunct2, THEN conjunct2,
      THEN conjunct1]
  note reversed = priority [THEN conjunct2, THEN conjunct2, THEN conjunct2, THEN conjunct2,
      THEN conjunct2, rule_format]
  let ?qreq = "\<lparr>dr_process = pid_A,
      dr_tags = \<lparr>tag_name = ''Action'', tag_value = Some (js_or (action send_args) ''Info'')\<rparr>
                # caller_tags send_args,
      dr_data = js_or (data send_args) ''{}''\<rparr>"
  have qrun: "fst (executeQueryProcess (stub_env r) send_args) = [Dryrun ?qreq]" for r
    by (rule query_calls) (simp_all add: send_args_def pid_A_def)
  have qanswer: "dryrun (stub_env r) q = Inr r" for r q
    by (simp add: stub_env_def)
  have "snd (executeSendMessage (stub_env error_tagged_response) send_args)
      = error_result ''Message sent (ID: MSG-1) but process returned error:\<newline>boom''"
    using error_tagged [of error_tagged_response]
    by (simp add: error_tagged_response_def opt_Messages_def actionTag_def opt_value_def
        js_show_def)
  moreover have "snd (executeSendMessage (stub_env json_response) send_args)
      = text_result ''Message sent successfully!\<newline>Message ID: MSG-1\<newline>Action: Info\<newline>Response:\<newline>{}''"
    using first_data [of json_response]
    by (simp add: json_response_def opt_Messages_def actionTag_def opt_value_def js_show_def
        js_or_def stub_env_def)
  moreover have "snd (executeSendMessage (stub_env output_and_error_response) send_args)
      = error_result ''Message sent (ID: MSG-1) but process error: err''"
    using error_field [of output_and_error_response]
    by (simp add: output_and_error_response_def opt_Messages_def opt_Error_def truthy_def
        js_show_def)
  moreover have "snd (executeSendMessage (stub_env output_only_response) send_args)
      = text_result ''Message sent successfully!\<newline>Message ID: MSG-1\<newline>Output:\<newline>out''"
    using output_field [of output_only_response]
    by (simp add: output_only_response_def opt_Messages_def opt_Error_def opt_Output_def
        output_data_def truthy_def js_show_def)
  moreover have "snd (executeSendMessage (stub_env empty_response) send_args)
      = text_result ''Message sent successfully!\<newline>Message ID: MSG-1\<newline>No response data returned.''"
    using no_data [of empty_response]
    by (simp add: empty_response_def opt_Messages_def opt_Error_def opt_Output_def
        output_data_def truthy_def)
  moreover have "isError (snd (executeSendMessage (stub_env output_and_error_response) send_args)) = Some True
      \<and> isError (snd (executeQueryProcess (stub_env output_and_error_response) send_args)) = None"
  proof (rule reversed)
    show "fst (executeQueryProcess (stub_env output_and_error_response) send_args) = [Dryrun ?qreq]
        \<and> dryrun (stub_env output_and_error_response) ?qreq = Inr output_and_error_response
        \<and> Some output_and_error_response = Some output_and_error_response
        \<and> (Messages output_and_error_response = None \<or> Messages output_and_error_response = Some [])
        \<and> truthy (output_data (Output output_and_error_response))
        \<and> truthy (Error output_and_error_response)"
      by (simp add: qrun qanswer output_and_error_response_def output_data_def truthy_def)
  qed
  ultimately show ?thesis
    by simp
qed

text \<open>
  Counterexample to claim C3 as stated: one response given to both executors: no message, the
  output data \<open>out\<close> and the error field \<open>err\<close>. The query executor returns the output
  as a success, send-message returns the error, so the two do not read it in the same order.
\<close>

theorem send_order_differs_from_query:
  "snd (executeQueryProcess (stub_env output_and_error_response) send_args)
     = text_result ''Process output:\<newline>out''
   \<and> snd (executeSendMessage (stub_env output_and_error_response) send_args)
     = error_result ''Message sent (ID: MSG-1) but process error: err''"
  by (simp add: executeQueryProcess_def executeSendMessage_def send_args_def no_args_def
      stub_env_def pid_A_def invalid_process_id_def output_and_error_response_def
      first_message_def opt_Messages_def opt_Error_def opt_Output_def output_data_def
      truthy_def js_show_def js_or_def caller_tags_def Let_def)

section \<open>Request shaping and rendering\<close>

text \<open>
  Claim C7, as amended. Whenever the query or the send-message executor reaches its
  network call, the tag sequence it sends is an Action tag followed by the caller-supplied
  tags; evaluate-code sends the single tag Action = Eval. The spawn executor builds no
  Action tag: its tag sequence is a Name tag exactly when a non-empty name was supplied,
  followed by the caller-supplied tags, so an Action tag occurs in it only if the caller
  supplied one.
\<close>

theorem tag_sequences:
  "(Dryrun qreq \<in> set (fst (executeQueryProcess env args)) \<longrightarrow>
      dr_tags qreq = \<lparr>tag_name = ''Action'', tag_value = Some (js_or (action args) ''Info'')\<rparr>
                     # caller_tags args)
   \<and> (Message mreq \<in> set (fst (executeSendMessage env args)) \<longrightarrow>
      msg_tags mreq = \<lparr>tag_name = ''Action'', tag_value = action args\<rparr> # caller_tags args)
   \<and> (Message ereq \<in> set (fst (executeEvalLua env args)) \<longrightarrow>
      msg_tags ereq = [\<lparr>tag_name = ''Action'', tag_value = Some ''Eval''\<rparr>])
   \<and> (Spawn sreq \<in> set (fst (executeSpawnProcess env args)) \<longrightarrow>
      sp_tags sreq = (if truthy (name args)
                      then [\<lparr>tag_name = ''Name'', tag_value = name args\<rparr>] else [])
                     @ caller_tags args
      \<and> (\<forall>t\<in>set (sp_tags sreq). tag_name t = ''Action'' \<longrightarrow> t \<in> set (caller_tags args)))"
proof -
  have "\<forall>t\<in>set (sp_tags sreq). tag_name t = ''Action'' \<longrightarrow> t \<in> set (caller_tags args)"
    if "Spawn sreq \<in> set (fst (executeSpawnProcess env args))"
    unfolding spawn_tags [OF that] by auto
  then show ?thesis
    using query_tags [of qreq env args] send_tags [of mreq env args] eval_tags [of ereq env args]
      spawn_tags [of sreq env args]
    by blast
qed

theorem tag_sequences_witness:
  "fst (executeQueryProcess (stub_env empty_response) tagged_args)
     = [Dryrun \<lparr>dr_process = pid_A,
          dr_tags = [\<lparr>tag_name = ''Action'', tag_value = Some ''Transfer''\<rparr>,
                     \<lparr>tag_name = ''X-Custom'', tag_value = Some ''1''\<rparr>],
          dr_data = ''{}''\<rparr>]
   \<and> (\<exists>req. Message req \<in> set (fst (executeSendMessage (stub_env empty_response) tagged_args))
        \<and> msg_tags req = [\<lparr>tag_name = ''Action'', tag_value = Some ''Transfer''\<rparr>,
                           \<lparr>tag_name = ''X-Custom'', tag_value = Some ''1''\<rparr>])
   \<and> (\<exists>req. Message req \<in> set (fst (executeEvalLua (stub_env empty_response) tagged_args))
        \<and> msg_tags req = [\<lparr>tag_name = ''Action'', tag_value = Some ''Eval''\<rparr>])
   \<and> (\<exists>req. Spawn req \<in> set (fst (executeSpawnProcess (stub_env empty_response) tagged_args))
        \<and> sp_tags req = [\<lparr>tag_name = ''Name'', tag_value = Some ''MyProcess''\<rparr>,
                          \<lparr>tag_name = ''X-Custom'', tag_value = Some ''1''\<rparr>])"
proof -
  let ?env = "stub_env empty_response"
  let ?qreq = "\<lparr>dr_process = pid_A,
          dr_tags = [\<lparr>tag_name = ''Action'', tag_value = Some ''Transfer''\<rparr>,
                     \<lparr>tag_name = ''X-Custom'', tag_value = Some ''1''\<rparr>],
          dr_data = ''{}''\<rparr>"
  let ?mreq = "\<lparr>msg_process = pid_A, msg_signer = ''{}'',
          msg_tags = [\<lparr>tag_name = ''Action'', tag_value = Some ''Transfer''\<rparr>,
                      \<lparr>tag_name = ''X-Custom'', tag_value = Some ''1''\<rparr>],
          msg_data = ''{}''\<rparr>"
  let ?ereq = "\<lparr>msg_process = pid_A, msg_signer = ''{}'',
          msg_tags = [\<lparr>tag_name = ''Action'', tag_value = Some ''Eval''\<rparr>],
          msg_data = ''return 1''\<rparr>"
  let ?sreq = "\<lparr>sp_module = AOS_MODULE, sp_scheduler = SCHEDULER, sp_signer = ''{}'',
          sp_tags = [\<lparr>tag_name = ''Name'', tag_value = Some ''MyProcess''\<rparr>,
                     \<lparr>tag_name = ''X-Custom'', tag_value = Some ''1''\<rparr>]\<rparr>"
  have facts: "truthy (name tagged_args)" "name tagged_args = Some ''MyProcess''"
    "action tagged_args = Some ''Transfer''"
    "caller_tags tagged_args = [\<lparr>tag_name = ''X-Custom'', tag_value = Some ''1''\<rparr>]"
    by (simp_all add: tagged_args_def truthy_def caller_tags_def)
  have query: "fst (executeQueryProcess ?env tagged_args) = [Dryrun ?qreq]"
    by (simp add: executeQueryProcess_def tagged_args_def no_args_def stub_env_def pid_A_def
        invalid_process_id_def js_or_def caller_tags_def Let_def)
  have send: "Message ?mreq \<in> set (fst (executeSendMessage ?env tagged_args))"
    by (simp add: executeSendMessage_def tagged_args_def no_args_def stub_env_def pid_A_def
        invalid_process_id_def truthy_def js_show_def js_or_def caller_tags_def Let_def)
  have eval: "Message ?ereq \<in> set (fst (executeEvalLua ?env tagged_args))"
    by (simp add: executeEvalLua_def tagged_args_def no_args_def stub_env_def pid_A_def
        invalid_process_id_def truthy_def js_show_def trim_def is_whitespace_def Let_def)
  have spawn: "Spawn ?sreq \<in> set (fst (executeSpawnProcess ?env tagged_args))"
    by (simp add: executeSpawnProcess_def tagged_args_def no_args_def stub_env_def
        truthy_def js_show_def js_or_def caller_tags_def Let_def)
  note shape = tag_sequences [of _ ?env tagged_args]
  from send shape [of _ ?mreq] facts
  have "msg_tags ?mreq = [\<lparr>tag_name = ''Action'', tag_value = Some ''Transfer''\<rparr>,
                           \<lparr>tag_name = ''X-Custom'', tag_value = Some ''1''\<rparr>]"
    by simp
  with send have "\<exists>req. Message req \<in> set (fst (executeSendMessage ?env tagged_args))
        \<and> msg_tags req = [\<lparr>tag_name = ''Action'', tag_value = Some ''Transfer''\<rparr>,
                           \<lparr>tag_name = ''X-Custom'', tag_value = Some ''1''\<rparr>]"
    by blast
  moreover from eval have "\<exists>req. Message req \<in> set (fst (executeEvalLua ?env tagged_args))
        \<and> msg_tags req = [\<lparr>tag_name = ''Action'', tag_value = Some ''Eval''\<rparr>]"
    by (intro exI [of _ ?ereq]) simp
  moreover from spawn have "\<exists>req. Spawn req \<in> set (fst (executeSpawnProcess ?env tagged_args))
        \<and> sp_tags req = [\<lparr>tag_name = ''Name'', tag_value = Some ''MyProcess''\<rparr>,
                          \<lparr>tag_name = ''X-Custom'', tag_value = Some ''1''\<rparr>]"
    by (intro exI [of _ ?sreq]) simp
  ultimately show ?thesis
    using query by simp
qed

text \<open>
  Counterexample to claim C7 as stated: a spawn call whose caller-supplied tags hold an
  Action tag sends that tag, so the tag sequence of the spawn executor does contain an
  Action tag.
\<close>

theorem spawn_sends_caller_action_tag:
  "name spawn_args = None
   \<and> fst (executeSpawnProcess (stub_env empty_response) spawn_args)
     = [CreateDataItemSigner ''{}'',
        Spawn \<lparr>sp_module = AOS_MODULE, sp_scheduler = SCHEDULER, sp_signer = ''{}'',
               sp_tags = [\<lparr>tag_name = ''Action'', tag_value = Some ''Init''\<rparr>]\<rparr>]"
  by (simp add: executeSpawnProcess_def spawn_args_def no_args_def stub_env_def
      truthy_def js_show_def js_or_def caller_tags_def Let_def)

text \<open>
  Claim C5. In each block that list-results renders, the output line and the data line of
  the first message show the field through the truncation law: a field longer than 200
  characters is shown as its first 200 characters followed by the ellipsis marker, a
  field of at most 200 characters is shown unchanged with no marker. The text of the
  envelope is the heading followed by these blocks, joined by line breaks.
\<close>

theorem list_results_truncation:
  "formatResult e index =
     ''--- Result '' @ show_nat (index + 1) @ '' (cursor: '' @ cursor e @ '') ---\<newline>''
     @ (if truthy (Error (node e)) then ''Error: '' @ js_show (Error (node e)) @ ''\<newline>'' else [])
     @ (if truthy (output_data (Output (node e)))
        then ''Output: '' @ truncated (js_show (output_data (Output (node e)))) @ ''\<newline>''
        else [])
     @ (case first_message (Messages (node e)) of
          None \<Rightarrow> []
        | Some msg \<Rightarrow>
            ''Message Action: '' @ js_or (opt_value (actionTag msg)) ''unknown'' @ ''\<newline>''
            @ (if truthy (Data msg)
               then ''Message Data: '' @ truncated (js_show (Data msg)) @ ''\<newline>''
               else []))
   \<and> (fst (executeListResults env args) = [Results req]
        \<and> results env req = Inr (Some \<lparr>edges = Some es\<rparr>) \<and> es \<noteq> [] \<longrightarrow>
       result_text (snd (executeListResults env args))
       = ''Results for process '' @ js_show (process_id args) @ '':\<newline>\<newline>''
         @ join ''\<newline>'' (map (\<lambda>(index, edge). formatResult edge index) (enumerate 0 es)))
   \<and> (200 < length s \<longrightarrow> truncated s = take 200 s @ ''...'')
   \<and> (length s \<le> 200 \<longrightarrow> truncated s = s)"
proof -
  have "result_text (snd (executeListResults env args))
       = ''Results for process '' @ js_show (process_id args) @ '':\<newline>\<newline>''
         @ join ''\<newline>'' (map (\<lambda>(index, edge). formatResult edge index) (enumerate 0 es))"
    if "fst (executeListResults env args) = [Results req]"
      "results env req = Inr (Some \<lparr>edges = Some es\<rparr>)" "es \<noteq> []"
    unfolding list_result [OF that]
    by (simp add: result_text_def text_result_def)
  moreover have "200 < length s \<longrightarrow> truncated s = take 200 s @ ''...''"
    by (simp add: truncated_def)
  moreover have "length s \<le> 200 \<longrightarrow> truncated s = s"
    by (simp add: truncated_def)
  moreover note formatResult_truncated [of e index]
  ultimately show ?thesis
    by blast
qed

theorem list_results_truncation_witness:
  "200 < length (replicate 201 (CHR ''x''))
   \<and> length (replicate 200 (CHR ''y'')) \<le> 200
   \<and> formatResult \<lparr>cursor = ''c1'', node = long_response\<rparr> 0
     = ''--- Result 1 (cursor: c1) ---\<newline>''
       @ ''Output: '' @ replicate 200 (CHR ''x'') @ ''...'' @ ''\<newline>''
       @ ''Message Action: unknown\<newline>''
       @ ''Message Data: '' @ replicate 200 (CHR ''y'') @ ''\<newline>''
   \<and> result_text (snd (executeListResults (stub_env long_response)
         (no_args\<lparr>process_id := Some pid_A\<rparr>)))
     = ''Results for process '' @ pid_A @ '':\<newline>\<newline>''
       @ formatResult \<lparr>cursor = ''c1'', node = long_response\<rparr> 0"
proof -
  let ?args = "no_args\<lparr>process_id := Some pid_A\<rparr>"
  let ?req = "\<lparr>rs_process = pid_A,
      rs_limit = (case limit ?args of None \<Rightarrow> 10 | Some n \<Rightarrow> if n = 0 then 10 else n),
      rs_from = from_cursor ?args, rs_sort = js_or (sort ?args) ''DESC''\<rparr>"
  let ?e = "\<lparr>cursor = ''c1'', node = long_response\<rparr>"
  note law = list_results_truncation [of ?e 0 "stub_env long_response" ?args ?req "[?e]"]
  have run: "fst (executeListResults (stub_env long_response) ?args) = [Results ?req]"
    by (rule list_calls) (simp_all add: pid_A_def)
  have answer: "results (stub_env long_response) ?req = Inr (Some \<lparr>edges = Some [?e]\<rparr>)"
    by (simp add: stub_env_def)
  have x: "truncated (replicate 201 (CHR ''x'')) = replicate 200 (CHR ''x'') @ ''...''"
    using list_results_truncation [of ?e 0 "stub_env long_response" ?args ?req "[?e]"
        "replicate 201 (CHR ''x'')", THEN conjunct2, THEN conjunct2, THEN conjunct1]
    by simp
  have y: "truncated (replicate 200 (CHR ''y'')) = replicate 200 (CHR ''y'')"
    using list_results_truncation [of ?e 0 "stub_env long_response" ?args ?req "[?e]"
        "replicate 200 (CHR ''y'')", THEN conjunct2, THEN conjunct2, THEN conjunct2]
    by simp
  have block: "formatResult ?e 0
     = ''--- Result 1 (cursor: c1) ---\<newline>''
       @ ''Output: '' @ replicate 200 (CHR ''x'') @ ''...'' @ ''\<newline>''
       @ ''Message Action: unknown\<newline>''
       @ ''Message Data: '' @ replicate 200 (CHR ''y'') @ ''\<newline>''"
    unfolding law [THEN conjunct1]
    by (simp add: long_response_def show_nat_1 truthy_def output_data_def js_show_def
        first_message_def actionTag_def opt_value_def js_or_def x y)
  have rendered: "result_text (snd (executeListResults (stub_env long_response) ?args))
     = ''Results for process '' @ pid_A @ '':\<newline>\<newline>'' @ formatResult ?e 0"
    using law [THEN conjunct2, THEN conjunct1] run answer
    by (simp add: js_show_def)
  from block rendered show ?thesis
    by simp
qed

end
